theory Spec2Isabelle
  imports Complex_Main
begin

section \<open>Strings\<close>

text \<open>
  JavaScript strings are modelled as \<^typ>\<open>string\<close> (character lists).  Every pattern the
  adapters search for is ASCII, so the operations below act on a character list exactly as
  the JavaScript ones act on the sequence of code units.
\<close>

text \<open>\<^verbatim>\<open>s.startsWith(p)\<close>, also the test behind a regular expression anchored with \<^verbatim>\<open>^\<close>.\<close>

definition startsWith :: "string \<Rightarrow> string \<Rightarrow> bool" where
  "startsWith s p = (take (length p) s = p)"

text \<open>\<^verbatim>\<open>s.endsWith(p)\<close>, also the test behind a regular expression anchored with \<^verbatim>\<open>$\<close>.\<close>

definition endsWith :: "string \<Rightarrow> string \<Rightarrow> bool" where
  "endsWith s p = (length p \<le> length s \<and> drop (length s - length p) s = p)"

text \<open>\<^verbatim>\<open>s.includes(p)\<close>: \<open>p\<close> occurs in \<open>s\<close> at some position.\<close>

fun str_includes :: "string \<Rightarrow> string \<Rightarrow> bool" where
  "str_includes [] p = (p = [])"
| "str_includes (c # cs) p = (startsWith (c # cs) p \<or> str_includes cs p)"

text \<open>
  \<^verbatim>\<open>s.split(sep)\<close> for a non-empty separator: the pieces between the occurrences of
  \<open>sep\<close>, found from left to right without overlap. \<open>cur\<close> is the piece being collected.
\<close>

fun split_from :: "string \<Rightarrow> string \<Rightarrow> string \<Rightarrow> string list" where
  "split_from sep cur [] = [cur]"
| "split_from sep cur (c # cs) =
     (if startsWith (c # cs) sep
      then cur # split_from sep [] (drop (length sep - 1) cs)
      else split_from sep (cur @ [c]) cs)"

definition str_split :: "string \<Rightarrow> string \<Rightarrow> string list" where
  "str_split s sep = split_from sep [] s"

text \<open>\<^verbatim>\<open>s.replace(/^p/, '')\<close> for a literal \<open>p\<close>.\<close>

definition remove_prefix :: "string \<Rightarrow> string \<Rightarrow> string" where
  "remove_prefix p s = (if startsWith s p then drop (length p) s else s)"

text \<open>\<^verbatim>\<open>s.replace(/p$/, '')\<close> for a literal \<open>p\<close>.\<close>

definition remove_suffix :: "string \<Rightarrow> string \<Rightarrow> string" where
  "remove_suffix p s = (if endsWith s p then take (length s - length p) s else s)"

text \<open>
  \<^verbatim>\<open>s.replace(a, b)\<close> with a one-character string pattern \<open>a\<close>: only the first occurrence
  is replaced.
\<close>

fun replace_first :: "char \<Rightarrow> string \<Rightarrow> string \<Rightarrow> string" where
  "replace_first a b [] = []"
| "replace_first a b (c # cs) = (if c = a then b @ cs else c # replace_first a b cs)"

text \<open>
  \<^verbatim>\<open>s.toUpperCase()\<close> on the ASCII letters; other characters are left as they are.
\<close>

definition toUpperCase :: "string \<Rightarrow> string" where
  "toUpperCase s =
     map (\<lambda>c. if 97 \<le> (of_char c :: nat) \<and> (of_char c :: nat) \<le> 122
              then char_of ((of_char c :: nat) - 32) else c) s"

text \<open>
  \<^verbatim>\<open>a || b\<close> where \<open>a\<close> is an optional string: \<^verbatim>\<open>undefined\<close> and the empty string
  are falsy.
\<close>

definition str_or :: "string option \<Rightarrow> string \<Rightarrow> string" where
  "str_or a b = (case a of None \<Rightarrow> b | Some s \<Rightarrow> if s = [] then b else s)"

text \<open>Decimal rendering of an integer, as a template literal prints it.\<close>

fun showNat :: "nat \<Rightarrow> string" where
  "showNat n =
     (if n < 10 then [''0123456789'' ! n]
      else showNat (n div 10) @ [''0123456789'' ! (n mod 10)])"

definition showInt :: "int \<Rightarrow> string" where
  "showInt i = (if i < 0 then ''-'' @ showNat (nat (- i)) else showNat (nat i))"

section \<open>The data model\<close>

text \<open>
  \<^verbatim>\<open>SymbolInfo\<close> and \<^verbatim>\<open>Period\<close> of \<^verbatim>\<open>types.ts\<close>, with the fields the adapters read.
  Optional fields are options.  The multiplier of a period is an integer.
\<close>

record SymbolInfo =
  ticker :: string
  shortName :: "string option"
  market :: "string option"
  priceCurrency :: "string option"

record Period =
  multiplier :: int
  timespan :: string

section \<open>Symbol normalisation\<close>

text \<open>\<^verbatim>\<open>DefaultDatafeed._convertTickerFormat\<close>.\<close>

definition Default_convertTickerFormat :: "string \<Rightarrow> string" where
  "Default_convertTickerFormat t =
     (if str_includes t ''-'' then t
      else let parts = str_split (remove_prefix ''X.'' t) ''USD''
           in if length parts = 2 then parts ! 0 @ ''-USD'' else t)"

text \<open>\<^verbatim>\<open>OKXDataFeeds._convertTickerFormat\<close>; the caller passes the quote currency.\<close>

definition OKX_convertTickerFormat :: "string \<Rightarrow> string \<Rightarrow> string" where
  "OKX_convertTickerFormat t quoteCurrency =
     (if str_includes t ''-'' then t
      else let parts = remove_suffix ''USDT'' (remove_suffix ''USD'' (remove_prefix ''X.'' t))
           in parts @ ''-'' @ quoteCurrency)"

text \<open>
  \<^verbatim>\<open>ticker.replace(/USD[T]?$/, '')\<close>: a string cannot end in both \<^verbatim>\<open>USDT\<close> and
  \<^verbatim>\<open>USD\<close>, so the one match, if any, is the suffix that is there.
\<close>

definition remove_USD_T :: "string \<Rightarrow> string" where
  "remove_USD_T s =
     (if endsWith s ''USDT'' then take (length s - 4) s
      else if endsWith s ''USD'' then take (length s - 3) s
      else s)"

text \<open>\<^verbatim>\<open>CCXTDataFeeds._convertTickerToSymbol\<close>.\<close>

definition CCXT_convertTickerToSymbol :: "SymbolInfo \<Rightarrow> string" where
  "CCXT_convertTickerToSymbol symbol =
     (if str_includes (ticker symbol) ''/'' then ticker symbol
      else if str_includes (ticker symbol) ''-''
        then replace_first (CHR ''-'') ''/'' (ticker symbol)
      else let base = str_or (shortName symbol) (remove_USD_T (ticker symbol));
               quote = str_or (map_option toUpperCase (priceCurrency symbol)) ''USDT''
           in base @ ''/'' @ quote)"

text \<open>
  The number of occurrences of a separator in a string, counted from the left without
  overlap.  It is the yardstick the splitting of a ticker is measured against, not a
  part of the program.
\<close>

fun occurrences :: "string \<Rightarrow> string \<Rightarrow> nat" where
  "occurrences sep [] = 0"
| "occurrences sep (c # cs) =
     (if startsWith (c # cs) sep
      then Suc (occurrences sep (drop (length sep - 1) cs))
      else occurrences sep cs)"

section \<open>Interval conversion\<close>

text \<open>\<^verbatim>\<open>LocalDataFeeds._convertPeriodToTimeframe\<close>: weeks and months are sent as days.\<close>

definition Local_convertPeriodToTimeframe :: "Period \<Rightarrow> string" where
  "Local_convertPeriodToTimeframe period =
     (if timespan period = ''minute'' then showInt (multiplier period) @ ''m''
      else if timespan period = ''hour'' then showInt (multiplier period) @ ''h''
      else if timespan period = ''day'' then showInt (multiplier period) @ ''d''
      else if timespan period = ''week'' then showInt (multiplier period * 7) @ ''d''
      else if timespan period = ''month'' then showInt (multiplier period * 30) @ ''d''
      else ''15m'')"

text \<open>\<^verbatim>\<open>CCXTDataFeeds._convertPeriodToTimeframe\<close>: the multiplier is passed on as it is.\<close>

definition CCXT_convertPeriodToTimeframe :: "Period \<Rightarrow> string" where
  "CCXT_convertPeriodToTimeframe period =
     (if timespan period = ''minute'' then showInt (multiplier period) @ ''m''
      else if timespan period = ''hour'' then showInt (multiplier period) @ ''h''
      else if timespan period = ''day'' then showInt (multiplier period) @ ''d''
      else if timespan period = ''week'' then showInt (multiplier period) @ ''w''
      else if timespan period = ''month'' then showInt (multiplier period) @ ''M''
      else ''1m'')"

text \<open>The table \<^verbatim>\<open>supportedPeriods\<close> of \<^verbatim>\<open>OKXDataFeeds._convertPeriodToBar\<close>.\<close>

definition supportedPeriods :: "(string \<times> int list) list" where
  "supportedPeriods =
     [(''minute'', [1, 3, 5, 15, 30]),
      (''hour'', [1, 2, 4, 6, 12]),
      (''day'', [1]),
      (''week'', [1]),
      (''month'', [1])]"

text \<open>
  \<^verbatim>\<open>supportedPeriods[timespan] || supportedPeriods.minute\<close>.  (A unit that names a property
  which every object inherits finds that property here and not the minute list; the value
  is used for the log only, since such a unit takes the default branch below.)
\<close>

definition supportedValues :: "string \<Rightarrow> int list" where
  "supportedValues ts =
     (case map_of supportedPeriods ts of Some vs \<Rightarrow> vs | None \<Rightarrow> [1, 3, 5, 15, 30])"

text \<open>
  The loop of \<^verbatim>\<open>_convertPeriodToBar\<close> runs from the last supported value down to the
  first and stops at the first one that the multiplier reaches; when there is none the
  multiplier itself is kept, and the test after the loop raises it to the first value.
\<close>

definition actualMultiplier :: "int \<Rightarrow> int list \<Rightarrow> int" where
  "actualMultiplier m vs =
     (let a = (case find (\<lambda>v. m \<ge> v) (rev vs) of Some v \<Rightarrow> v | None \<Rightarrow> m)
      in if a < vs ! 0 then vs ! 0 else a)"

text \<open>\<^verbatim>\<open>OKXDataFeeds._convertPeriodToBar\<close>.\<close>

definition OKX_convertPeriodToBar :: "Period \<Rightarrow> string" where
  "OKX_convertPeriodToBar period =
     (let a = actualMultiplier (multiplier period) (supportedValues (timespan period))
      in if timespan period = ''minute'' then showInt a @ ''m''
         else if timespan period = ''hour'' then showInt a @ ''H''
         else if timespan period = ''day'' then showInt a @ ''D''
         else if timespan period = ''week'' then showInt a @ ''W''
         else if timespan period = ''month'' then showInt a @ ''M''
         else ''1m'')"

section \<open>Errors, numbers and HTTP responses\<close>

text \<open>
  A thrown JavaScript exception, or the reason of a rejected promise: the name of its
  class and its message.  \<open>Thrown ''Error'' m\<close> is \<^verbatim>\<open>new Error(m)\<close>.
\<close>

datatype error = Thrown string string

text \<open>The text of an exception inside a template literal.\<close>

fun error_text :: "error \<Rightarrow> string" where
  "error_text (Thrown n m) = (if m = [] then n else if n = [] then m else n @ '': '' @ m)"

text \<open>
  A number that a parsing builtin returns: \<^verbatim>\<open>NaN\<close> or a value.  Comparisons with
  \<^verbatim>\<open>NaN\<close> are false, \<^verbatim>\<open>NaN\<close> and zero are falsy, and a product with \<^verbatim>\<open>NaN\<close> is
  \<^verbatim>\<open>NaN\<close>.
\<close>

datatype 'a jsnum = NaN | Number 'a

fun js_le :: "'a::linorder jsnum \<Rightarrow> 'a jsnum \<Rightarrow> bool" where
  "js_le (Number a) (Number b) = (a \<le> b)"
| "js_le _ _ = False"

fun js_or :: "real jsnum \<Rightarrow> real jsnum \<Rightarrow> real jsnum" where
  "js_or (Number a) b = (if a = 0 then b else Number a)"
| "js_or NaN b = b"

fun js_times :: "real jsnum \<Rightarrow> real jsnum \<Rightarrow> real jsnum" where
  "js_times (Number a) (Number b) = Number (a * b)"
| "js_times _ _ = NaN"

text \<open>\<^verbatim>\<open>xs[i]\<close>: reading past the end of an array gives \<^verbatim>\<open>undefined\<close>.\<close>

definition at_index :: "'a list \<Rightarrow> nat \<Rightarrow> 'a option" where
  "at_index xs i = (if i < length xs then Some (xs ! i) else None)"

text \<open>
  \<^verbatim>\<open>new Date(t).toISOString()\<close>, which the adapters call when they log a request, throws
  a \<^verbatim>\<open>RangeError\<close> unless \<open>t\<close> is a time that \<^verbatim>\<open>Date\<close> can hold.
\<close>

definition valid_date :: "int \<Rightarrow> bool" where
  "valid_date t = (- 8640000000000000 \<le> t \<and> t \<le> 8640000000000000)"

text \<open>
  What \<^verbatim>\<open>await fetch(url)\<close> resolves to.  Reading the body can fail on its own:
  \<open>resp_text\<close> is the outcome of \<^verbatim>\<open>response.text()\<close>, and \<open>resp_json\<close> the outcome of
  \<^verbatim>\<open>response.json()\<close>, a \<^verbatim>\<open>SyntaxError\<close> when the body is not JSON.
\<close>

record 'j response =
  resp_ok :: bool
  resp_status :: int
  resp_statusText :: string
  resp_text :: "error + string"
  resp_json :: "error + 'j"

text \<open>
  One bar.  The adapters that receive numbers build bars of integers (milliseconds) and
  reals; the OKX adapter parses strings, so its fields may be \<^verbatim>\<open>NaN\<close>.
\<close>

record ('t, 'p) KLine =
  timestamp :: 't
  open_price :: 'p
  high :: 'p
  low :: 'p
  close :: 'p
  volume :: 'p
  turnover :: 'p

type_synonym KLineData = "(int, real) KLine"

section \<open>Historical fetch\<close>

subsection \<open>LocalDataFeeds\<close>

text \<open>
  The body of the \<^verbatim>\<open>try\<close> block of \<^verbatim>\<open>LocalDataFeeds.getHistoryKLineData\<close>.  The network
  is the function \<open>fetch\<close>: \<open>fetch k url\<close> is the outcome of the request for \<open>url\<close> when it
  is the request number \<open>k\<close> that the call makes, the first being number 0.  The code calls
  \<^verbatim>\<open>fetch\<close> once, outside any loop, so only request 0 appears; a second attempt would be
  request 1.  \<open>encodeURIComponent\<close> is the builtin, which can throw.  The message of the error thrown on
  a response that is not ok is a fixed text followed by the status text; the text is
  written in ASCII here.
\<close>

definition Local_history_url :: "string \<Rightarrow> string \<Rightarrow> string \<Rightarrow> int \<Rightarrow> int \<Rightarrow> string" where
  "Local_history_url baseUrl encoded timeframe from to =
     baseUrl @ ''/api/klines?symbol='' @ encoded @ ''&timeframe='' @ timeframe
       @ ''&from_time='' @ showInt from @ ''&to_time='' @ showInt to"

definition Local_history_try ::
  "(string \<Rightarrow> error + string) \<Rightarrow> (nat \<Rightarrow> string \<Rightarrow> error + KLineData list response) \<Rightarrow>
   string \<Rightarrow> SymbolInfo \<Rightarrow> Period \<Rightarrow> int \<Rightarrow> int \<Rightarrow> error + KLineData list" where
  "Local_history_try encodeURIComponent fetch baseUrl symbol period from to =
     (let timeframe = Local_convertPeriodToTimeframe period in
      case encodeURIComponent (ticker symbol) of
        Inl e \<Rightarrow> Inl e
      | Inr encoded \<Rightarrow>
          (case fetch 0 (Local_history_url baseUrl encoded timeframe from to) of
             Inl e \<Rightarrow> Inl e
           | Inr response \<Rightarrow>
               if \<not> resp_ok response
               then Inl (Thrown ''Error'' (''history fetch failed: '' @ resp_statusText response))
               else (case resp_json response of
                       Inl e \<Rightarrow> Inl e
                     | Inr klines \<Rightarrow> Inr klines)))"

text \<open>
  \<^verbatim>\<open>LocalDataFeeds.getHistoryKLineData\<close>: the \<^verbatim>\<open>catch\<close> block logs the error and returns the
  empty list.
\<close>

definition Local_getHistoryKLineData ::
  "(string \<Rightarrow> error + string) \<Rightarrow> (nat \<Rightarrow> string \<Rightarrow> error + KLineData list response) \<Rightarrow>
   string \<Rightarrow> SymbolInfo \<Rightarrow> Period \<Rightarrow> int \<Rightarrow> int \<Rightarrow> error + KLineData list" where
  "Local_getHistoryKLineData encodeURIComponent fetch baseUrl symbol period from to =
     (case Local_history_try encodeURIComponent fetch baseUrl symbol period from to of
        Inl e \<Rightarrow> Inr []
      | Inr klines \<Rightarrow> Inr klines)"

subsection \<open>DefaultDatafeed\<close>

text \<open>
  One aggregate of the response: \<^verbatim>\<open>t\<close> is its timestamp, \<^verbatim>\<open>s\<close> and \<^verbatim>\<open>vw\<close> may be
  missing.
\<close>

record Aggregate =
  agg_s :: "int option"
  agg_t :: int
  agg_o :: real
  agg_h :: real
  agg_l :: real
  agg_c :: real
  agg_v :: real
  agg_vw :: "real option"

record Default_result =
  results :: "Aggregate list option"

text \<open>\<^verbatim>\<open>DefaultDatafeed._convertTimespan\<close>: every entry of its table maps a unit to itself.\<close>

definition Default_convertTimespan :: "string \<Rightarrow> string" where
  "Default_convertTimespan ts =
     (case map_of [(''minute'', ''minute''), (''hour'', ''hour''), (''day'', ''day''),
                   (''week'', ''week''), (''month'', ''month''), (''year'', ''year'')] ts of
        Some u \<Rightarrow> if u = [] then ts else u
      | None \<Rightarrow> ts)"

text \<open>The bar built from one aggregate: \<^verbatim>\<open>data.s || data.t\<close> and \<^verbatim>\<open>data.vw || (data.c * data.v)\<close>.\<close>

definition Default_bar :: "Aggregate \<Rightarrow> KLineData" where
  "Default_bar d =
     \<lparr>timestamp = (case agg_s d of Some s \<Rightarrow> if s = 0 then agg_t d else s | None \<Rightarrow> agg_t d),
      open_price = agg_o d, high = agg_h d, low = agg_l d, close = agg_c d, volume = agg_v d,
      turnover = (case agg_vw d of Some w \<Rightarrow> if w = 0 then agg_c d * agg_v d else w
                  | None \<Rightarrow> agg_c d * agg_v d)\<rparr>"

text \<open>
  \<^verbatim>\<open>DefaultDatafeed.getHistoryKLineData\<close>.  The range goes into the address in seconds, is
  printed as two dates in the log before the request, and is not looked at again; the
  \<^verbatim>\<open>catch\<close> block throws the error on.
\<close>

definition Default_history_url :: "string \<Rightarrow> SymbolInfo \<Rightarrow> Period \<Rightarrow> int \<Rightarrow> int \<Rightarrow> string" where
  "Default_history_url apiKey symbol period from to =
     (let t = Default_convertTickerFormat (ticker symbol);
          ts = Default_convertTimespan (timespan period);
          fromSec = from div 1000;
          toSec = to div 1000
      in ''https://api.massive.com/v2/aggs/ticker/'' @ t @ ''/range/''
           @ showInt (multiplier period) @ ''/'' @ ts @ ''/'' @ showInt fromSec @ ''/''
           @ showInt toSec @ ''?apiKey='' @ apiKey)"

definition Default_getHistoryKLineData ::
  "(nat \<Rightarrow> string \<Rightarrow> error + Default_result response) \<Rightarrow> string \<Rightarrow>
   SymbolInfo \<Rightarrow> Period \<Rightarrow> int \<Rightarrow> int \<Rightarrow> error + KLineData list" where
  "Default_getHistoryKLineData fetch apiKey symbol period from to =
     (if valid_date (from div 1000 * 1000) \<and> valid_date (to div 1000 * 1000)
      then
        (case fetch 0 (Default_history_url apiKey symbol period from to) of
           Inl e \<Rightarrow> Inl e
         | Inr response \<Rightarrow>
             if \<not> resp_ok response
             then (case resp_text response of
                     Inl e \<Rightarrow> Inl e
                   | Inr errorText \<Rightarrow>
                       Inl (Thrown ''Error'' (''API request failed: ''
                         @ showInt (resp_status response) @ '' '' @ resp_statusText response)))
             else (case resp_json response of
                     Inl e \<Rightarrow> Inl e
                   | Inr result \<Rightarrow>
                       Inr (map Default_bar
                              (case results result of None \<Rightarrow> [] | Some rs \<Rightarrow> rs))))
      else Inl (Thrown ''RangeError'' ''Invalid time value''))"

subsection \<open>OKXDataFeeds\<close>

record OKX_result =
  code :: string
  msg :: string
  data :: "string list list option"

text \<open>
  The bar built from one candle, an array of strings.  \<open>parseInt\<close> and \<open>parseFloat\<close> are
  the builtins (\<open>parseInt\<close> with radix 10), applied to an element that may be missing.
\<close>

definition OKX_bar ::
  "(string option \<Rightarrow> int jsnum) \<Rightarrow> (string option \<Rightarrow> real jsnum) \<Rightarrow> string list \<Rightarrow>
   (int jsnum, real jsnum) KLine" where
  "OKX_bar parseInt parseFloat candle =
     \<lparr>timestamp = parseInt (at_index candle 0),
      open_price = parseFloat (at_index candle 1),
      high = parseFloat (at_index candle 2),
      low = parseFloat (at_index candle 3),
      close = parseFloat (at_index candle 4),
      volume = parseFloat (at_index candle 5),
      turnover = js_or (parseFloat (at_index candle 6))
                   (js_times (parseFloat (at_index candle 5)) (parseFloat (at_index candle 4)))\<rparr>"

text \<open>
  \<^verbatim>\<open>OKXDataFeeds.getHistoryKLineData\<close>.  The candles are mapped and the list is reversed;
  the range goes into the address in seconds, is printed as two dates in the log before the
  request, and is not looked at again.
\<close>

definition OKX_history_url :: "SymbolInfo \<Rightarrow> Period \<Rightarrow> int \<Rightarrow> int \<Rightarrow> string" where
  "OKX_history_url symbol period from to =
     (let instId = OKX_convertTickerFormat (ticker symbol)
                     (str_or (map_option toUpperCase (priceCurrency symbol)) ''USDT'');
          bar = OKX_convertPeriodToBar period;
          after = from div 1000;
          before = to div 1000
      in ''https://www.okx.com/api/v5/market/candles?instId='' @ instId @ ''&bar='' @ bar
           @ ''&after='' @ showInt after @ ''&before='' @ showInt before @ ''&limit=300'')"

definition OKX_getHistoryKLineData ::
  "(string option \<Rightarrow> int jsnum) \<Rightarrow> (string option \<Rightarrow> real jsnum) \<Rightarrow>
   (nat \<Rightarrow> string \<Rightarrow> error + OKX_result response) \<Rightarrow>
   SymbolInfo \<Rightarrow> Period \<Rightarrow> int \<Rightarrow> int \<Rightarrow> error + (int jsnum, real jsnum) KLine list" where
  "OKX_getHistoryKLineData parseInt parseFloat fetch symbol period from to =
     (if valid_date (from div 1000 * 1000) \<and> valid_date (to div 1000 * 1000)
      then
        (case fetch 0 (OKX_history_url symbol period from to) of
           Inl e \<Rightarrow> Inl e
         | Inr response \<Rightarrow>
             if \<not> resp_ok response
             then (case resp_text response of
                     Inl e \<Rightarrow> Inl e
                   | Inr errorText \<Rightarrow>
                       Inl (Thrown ''Error'' (''API request failed: ''
                         @ showInt (resp_status response) @ '' '' @ resp_statusText response)))
             else (case resp_json response of
                     Inl e \<Rightarrow> Inl e
                   | Inr result \<Rightarrow>
                       if code result \<noteq> ''0''
                       then Inl (Thrown ''Error'' (''API error: '' @ msg result))
                       else Inr (rev (map (OKX_bar parseInt parseFloat)
                                   (case data result of None \<Rightarrow> [] | Some cs \<Rightarrow> cs)))))
      else Inl (Thrown ''RangeError'' ''Invalid time value''))"

subsection \<open>CCXTDataFeeds\<close>

text \<open>One candle of the CCXT library: six numbers.\<close>

record Candle =
  c_timestamp :: int
  c_open :: real
  c_high :: real
  c_low :: real
  c_close :: real
  c_volume :: real

definition CCXT_bar :: "Candle \<Rightarrow> KLineData" where
  "CCXT_bar c =
     \<lparr>timestamp = c_timestamp c, open_price = c_open c, high = c_high c, low = c_low c,
      close = c_close c, volume = c_volume c, turnover = c_close c * c_volume c\<rparr>"

text \<open>
  \<^verbatim>\<open>CCXTDataFeeds._ensureMarketsLoaded\<close>: \<open>markets\<close> is the cache \<^verbatim>\<open>this._markets\<close> and
  \<open>loadMarkets k\<close> the outcome of the library call number \<open>k\<close>; the code makes one, number 0,
  and only when the cache is empty.  The
  result is the cache afterwards.
\<close>

definition CCXT_ensureMarketsLoaded ::
  "(nat \<Rightarrow> error + 'm) \<Rightarrow> 'm option \<Rightarrow> error + 'm option" where
  "CCXT_ensureMarketsLoaded loadMarkets markets =
     (case markets of
        Some m \<Rightarrow> Inr (Some m)
      | None \<Rightarrow>
          (case loadMarkets 0 of
             Inl e \<Rightarrow> Inl (Thrown ''Error'' (''Failed to load markets: '' @ error_text e))
           | Inr m \<Rightarrow> Inr (Some m)))"

text \<open>
  \<^verbatim>\<open>CCXTDataFeeds.getHistoryKLineData\<close>.  \<open>fetchOHLCV k\<close> is the library call number \<open>k\<close>
  of this call of the adapter, with its four arguments; the code makes one, number 0; the range is printed as two dates in the log before the call.  The candles
  inside the range are kept, in the order they came; the dates of the first and the last bar
  that are printed afterwards lie inside the range.  The \<^verbatim>\<open>catch\<close> block throws the error
  on.
\<close>

definition CCXT_getHistoryKLineData ::
  "(nat \<Rightarrow> error + 'm) \<Rightarrow> 'm option \<Rightarrow> (nat \<Rightarrow> string \<Rightarrow> string \<Rightarrow> int \<Rightarrow> int \<Rightarrow> error + Candle list) \<Rightarrow>
   SymbolInfo \<Rightarrow> Period \<Rightarrow> int \<Rightarrow> int \<Rightarrow> error + KLineData list" where
  "CCXT_getHistoryKLineData loadMarkets markets fetchOHLCV symbol period from to =
     (case CCXT_ensureMarketsLoaded loadMarkets markets of
        Inl e \<Rightarrow> Inl e
      | Inr loaded \<Rightarrow>
          (let ccxtSymbol = CCXT_convertTickerToSymbol symbol;
               timeframe = CCXT_convertPeriodToTimeframe period;
               since = from;
               limit = 1000 in
           if valid_date from \<and> valid_date to
           then
             (case fetchOHLCV 0 ccxtSymbol timeframe since limit of
                Inl e \<Rightarrow> Inl e
              | Inr ohlcv \<Rightarrow>
                  if length ohlcv = 0 then Inr []
                  else Inr (map CCXT_bar
                         (filter (\<lambda>candle. c_timestamp candle \<ge> from \<and> c_timestamp candle \<le> to)
                            ohlcv)))
           else Inl (Thrown ''RangeError'' ''Invalid time value'')))"

section \<open>The live subscription of LocalDataFeeds\<close>

text \<open>
  The adapters run on one thread: a call or an event handler runs to its end before the
  next one starts.  The model has one function for each call and each handler, from the
  state before to the state after.  The state holds the fields of the adapter and, beside
  them, what the handlers reach through their closures: the sockets that were created,
  the timeouts that were set, and the list of the calls made to a subscriber callback.
  A callback is known by a number.
\<close>

datatype readyState = CONNECTING | OPEN | CLOSING | CLOSED

text \<open>
  A socket created by \<^verbatim>\<open>subscribe\<close>: the symbol and timeframe of its address, the
  \<^verbatim>\<open>channel\<close> that its four handlers captured, and its state.
\<close>

record Local_socket =
  ls_symbol :: string
  ls_timeframe :: string
  ls_channel :: string
  ls_readyState :: readyState

text \<open>
  The closure passed to \<^verbatim>\<open>setTimeout\<close> in \<^verbatim>\<open>subscribe\<close>: the symbol, period and channel of
  that call.  \<open>lt_pending\<close> is true until the timeout has run.
\<close>

record Local_timeout =
  lt_symbol :: SymbolInfo
  lt_period :: Period
  lt_channel :: string
  lt_pending :: bool

record Local_state =
  Local_ws :: "nat option"
  Local_currentChannel :: "string option"
  Local_callback :: "nat option"
  Local_sockets :: "Local_socket list"
  Local_timeouts :: "Local_timeout list"
  Local_calls :: "(nat \<times> nat \<times> KLineData) list"

text \<open>The state the constructor leaves.\<close>

definition Local_init :: Local_state where
  "Local_init =
     \<lparr>Local_ws = None, Local_currentChannel = None, Local_callback = None,
      Local_sockets = [], Local_timeouts = [], Local_calls = []\<rparr>"

text \<open>
  \<^verbatim>\<open>ws.close()\<close>: a socket that is connecting or open starts closing; one that is closing or
  closed stays as it is.
\<close>

definition ws_close :: "readyState \<Rightarrow> readyState" where
  "ws_close r = (if r = CONNECTING \<or> r = OPEN then CLOSING else r)"

definition Local_set_readyState :: "nat \<Rightarrow> readyState \<Rightarrow> Local_state \<Rightarrow> Local_state" where
  "Local_set_readyState w r st =
     st\<lparr>Local_sockets := (Local_sockets st)[w := (Local_sockets st ! w)\<lparr>ls_readyState := r\<rparr>]\<rparr>"

text \<open>The channel of a symbol and a period: the ticker, an underscore and the timeframe.\<close>

definition Local_channel :: "SymbolInfo \<Rightarrow> Period \<Rightarrow> string" where
  "Local_channel symbol period = ticker symbol @ ''_'' @ Local_convertPeriodToTimeframe period"

text \<open>\<^verbatim>\<open>LocalDataFeeds.unsubscribe\<close>.\<close>

definition Local_unsubscribe :: "Local_state \<Rightarrow> SymbolInfo \<Rightarrow> Period \<Rightarrow> Local_state" where
  "Local_unsubscribe st symbol period =
     (case Local_ws st of
        None \<Rightarrow> st
      | Some w \<Rightarrow>
          if Local_currentChannel st = Some (Local_channel symbol period)
          then (let r = ls_readyState (Local_sockets st ! w);
                    st1 = (if r = OPEN \<or> r = CONNECTING
                           then Local_set_readyState w (ws_close r) st else st)
                in st1\<lparr>Local_ws := None, Local_currentChannel := None, Local_callback := None\<rparr>)
          else st)"

text \<open>
  \<^verbatim>\<open>LocalDataFeeds.subscribe\<close>.  \<open>created\<close> tells whether the \<^verbatim>\<open>try\<close> block gets past
  building the address and \<^verbatim>\<open>new WebSocket\<close>; when it does not, the \<^verbatim>\<open>catch\<close> block clears
  the socket and the channel.  The new socket takes the next free index.
\<close>

definition Local_subscribe ::
  "Local_state \<Rightarrow> SymbolInfo \<Rightarrow> Period \<Rightarrow> nat \<Rightarrow> bool \<Rightarrow> Local_state" where
  "Local_subscribe st symbol period callback created =
     (let timeframe = Local_convertPeriodToTimeframe period;
          channel = ticker symbol @ ''_'' @ timeframe
      in if Local_currentChannel st = Some channel \<and>
            (case Local_ws st of None \<Rightarrow> False
             | Some w \<Rightarrow> ls_readyState (Local_sockets st ! w) = OPEN)
         then st\<lparr>Local_callback := Some callback\<rparr>
         else
           (let st1 = (case Local_ws st of
                         None \<Rightarrow> st
                       | Some w \<Rightarrow>
                           if ls_readyState (Local_sockets st ! w) = OPEN \<or>
                              ls_readyState (Local_sockets st ! w) = CLOSING
                           then Local_unsubscribe st symbol period
                           else st\<lparr>Local_timeouts := Local_timeouts st @
                                  [\<lparr>lt_symbol = symbol, lt_period = period, lt_channel = channel,
                                    lt_pending = True\<rparr>]\<rparr>);
                st2 = st1\<lparr>Local_currentChannel := Some channel, Local_callback := Some callback\<rparr>
            in if created
               then st2\<lparr>Local_sockets := Local_sockets st2 @
                          [\<lparr>ls_symbol = ticker symbol, ls_timeframe = timeframe,
                            ls_channel = channel, ls_readyState = CONNECTING\<rparr>],
                        Local_ws := Some (length (Local_sockets st2))\<rparr>
               else st2\<lparr>Local_ws := None, Local_currentChannel := None\<rparr>))"

text \<open>
  The timeout set by \<^verbatim>\<open>subscribe\<close> runs: when a socket is held and the current channel is
  not the channel of that call, it calls \<^verbatim>\<open>unsubscribe\<close> with the symbol and period of that
  call.
\<close>

definition Local_timeout_fired :: "nat \<Rightarrow> Local_state \<Rightarrow> Local_state" where
  "Local_timeout_fired k st =
     (if k < length (Local_timeouts st) \<and> lt_pending (Local_timeouts st ! k)
      then (let t = Local_timeouts st ! k;
                st1 = st\<lparr>Local_timeouts := (Local_timeouts st)[k := t\<lparr>lt_pending := False\<rparr>]\<rparr>
            in if Local_ws st1 \<noteq> None \<and> Local_currentChannel st1 \<noteq> Some (lt_channel t)
               then Local_unsubscribe st1 (lt_symbol t) (lt_period t)
               else st1)
      else st)"

text \<open>
  A connecting socket opens and its \<^verbatim>\<open>onopen\<close> handler runs: when the current channel is
  no longer the channel of the socket, the handler closes the socket.
\<close>

definition Local_onopen :: "nat \<Rightarrow> Local_state \<Rightarrow> Local_state" where
  "Local_onopen w st =
     (if w < length (Local_sockets st) \<and> ls_readyState (Local_sockets st ! w) = CONNECTING
      then (if Local_currentChannel st = Some (ls_channel (Local_sockets st ! w))
            then Local_set_readyState w OPEN st
            else Local_set_readyState w (ws_close OPEN) st)
      else st)"

text \<open>
  A message arrives on an open socket and its \<^verbatim>\<open>onmessage\<close> handler runs.  The payload is
  \<open>None\<close> when \<^verbatim>\<open>JSON.parse\<close> throws; the handler catches that.
\<close>

definition Local_onmessage :: "nat \<Rightarrow> KLineData option \<Rightarrow> Local_state \<Rightarrow> Local_state" where
  "Local_onmessage w payload st =
     (if w < length (Local_sockets st) \<and> ls_readyState (Local_sockets st ! w) = OPEN
      then (if Local_currentChannel st \<noteq> Some (ls_channel (Local_sockets st ! w)) then st
            else (case payload of
                    None \<Rightarrow> st
                  | Some bar \<Rightarrow>
                      (case Local_callback st of
                         None \<Rightarrow> st
                       | Some cb \<Rightarrow> st\<lparr>Local_calls := Local_calls st @ [(cb, w, bar)]\<rparr>)))
      else st)"

text \<open>
  A socket that is not yet closed becomes closed (the connection failed, the server closed
  it, or a close that was asked for has finished) and its \<^verbatim>\<open>onclose\<close> handler runs.
\<close>

definition Local_onclose :: "nat \<Rightarrow> Local_state \<Rightarrow> Local_state" where
  "Local_onclose w st =
     (if w < length (Local_sockets st) \<and> ls_readyState (Local_sockets st ! w) \<noteq> CLOSED
      then (let st1 = Local_set_readyState w CLOSED st
            in if Local_currentChannel st = Some (ls_channel (Local_sockets st ! w))
               then st1\<lparr>Local_ws := None, Local_currentChannel := None\<rparr>
               else st1)
      else st)"

text \<open>What can happen to an adapter, and a run of such events from a state.\<close>

datatype Local_event =
    Subscribe SymbolInfo Period nat bool
  | Unsubscribe SymbolInfo Period
  | Opened nat
  | Message nat "KLineData option"
  | Closed nat
  | TimedOut nat

fun Local_step :: "Local_state \<Rightarrow> Local_event \<Rightarrow> Local_state" where
  "Local_step st (Subscribe symbol period callback created) =
     Local_subscribe st symbol period callback created"
| "Local_step st (Unsubscribe symbol period) = Local_unsubscribe st symbol period"
| "Local_step st (Opened w) = Local_onopen w st"
| "Local_step st (Message w payload) = Local_onmessage w payload st"
| "Local_step st (Closed w) = Local_onclose w st"
| "Local_step st (TimedOut k) = Local_timeout_fired k st"

definition Local_run :: "Local_state \<Rightarrow> Local_event list \<Rightarrow> Local_state" where
  "Local_run st events = foldl Local_step st events"

text \<open>
  A live connection is a socket that is connecting or open.  The state is settled when no
  socket is connecting or closing and no timeout is pending.
\<close>

definition Local_live :: "Local_state \<Rightarrow> nat list" where
  "Local_live st =
     filter (\<lambda>w. ls_readyState (Local_sockets st ! w) = CONNECTING \<or>
                 ls_readyState (Local_sockets st ! w) = OPEN)
       [0 ..< length (Local_sockets st)]"

definition Local_settled :: "Local_state \<Rightarrow> bool" where
  "Local_settled st =
     (list_all (\<lambda>s. ls_readyState s = OPEN \<or> ls_readyState s = CLOSED) (Local_sockets st) \<and>
      list_all (\<lambda>t. lt_pending t = False) (Local_timeouts st))"

section \<open>The live subscription of OKXDataFeeds\<close>

text \<open>A frame sent on a socket: the operation, the channel and the instrument.\<close>

datatype OKX_frame = SubscribeFrame string string | UnsubscribeFrame string string

text \<open>
  A socket created by \<^verbatim>\<open>OKXDataFeeds.subscribe\<close>: what its handlers captured (the
  \<^verbatim>\<open>channel\<close>, \<^verbatim>\<open>pendingInstId\<close> and \<^verbatim>\<open>pendingCallback\<close> of the call that created it), its
  state and the frames sent on it.  The adapter has no field for the callback: the handlers'
  \<^verbatim>\<open>pendingCallback\<close> is the only place where one is kept.
\<close>

record OKX_socket =
  os_channel :: string
  os_pendingInstId :: string
  os_pendingCallback :: nat
  os_readyState :: readyState
  os_sent :: "OKX_frame list"

text \<open>
  The fields of the adapter, the sockets that were created, and the calls made to a
  subscriber callback: the number of the callback and the bar it was given.
\<close>

record OKX_state =
  OKX_prevSymbolMarket :: "string option"
  OKX_ws :: "nat option"
  OKX_currentChannel :: "string option"
  OKX_sockets :: "OKX_socket list"
  OKX_calls :: "(nat \<times> (int jsnum, real jsnum) KLine) list"

definition OKX_init :: OKX_state where
  "OKX_init =
     \<lparr>OKX_prevSymbolMarket = None, OKX_ws = None, OKX_currentChannel = None, OKX_sockets = [],
      OKX_calls = []\<rparr>"

text \<open>
  \<^verbatim>\<open>OKXDataFeeds.subscribe\<close>.  A new connection is made when the market of the symbol
  changed, when no socket is held or when the held socket is not open; the held socket, if
  any, is closed first.  Otherwise a subscribe frame is sent on the held socket and the
  current channel is set.  The callback goes into the handlers of a new socket only.
\<close>

definition OKX_subscribe :: "OKX_state \<Rightarrow> SymbolInfo \<Rightarrow> Period \<Rightarrow> nat \<Rightarrow> OKX_state" where
  "OKX_subscribe st symbol period callback =
     (let quote = str_or (map_option toUpperCase (priceCurrency symbol)) ''USDT'';
          instId0 = OKX_convertTickerFormat (ticker symbol) quote;
          bar = OKX_convertPeriodToBar period;
          channel = ''candles'' @ bar;
          instId = (if \<not> str_includes instId0 ''-''
                    then str_or (shortName symbol) ''BTC'' @ ''-'' @ quote else instId0);
          st1 =
            (case OKX_ws st of
               None \<Rightarrow>
                 st\<lparr>OKX_sockets := OKX_sockets st @
                       [\<lparr>os_channel = channel, os_pendingInstId = instId,
                         os_pendingCallback = callback, os_readyState = CONNECTING,
                         os_sent = []\<rparr>],
                    OKX_ws := Some (length (OKX_sockets st)),
                    OKX_currentChannel := Some channel\<rparr>
             | Some w \<Rightarrow>
                 if OKX_prevSymbolMarket st \<noteq> market symbol \<or>
                    os_readyState (OKX_sockets st ! w) \<noteq> OPEN
                 then
                   (let closed = (OKX_sockets st)
                          [w := (OKX_sockets st ! w)
                             \<lparr>os_readyState := ws_close (os_readyState (OKX_sockets st ! w))\<rparr>]
                    in st\<lparr>OKX_sockets := closed @
                             [\<lparr>os_channel = channel, os_pendingInstId = instId,
                               os_pendingCallback = callback, os_readyState = CONNECTING,
                               os_sent = []\<rparr>],
                          OKX_ws := Some (length closed),
                          OKX_currentChannel := Some channel\<rparr>)
                 else
                   (case OKX_currentChannel st of
                      None \<Rightarrow> st
                    | Some c \<Rightarrow>
                        if c = [] then st
                        else st\<lparr>OKX_sockets := (OKX_sockets st)
                                  [w := (OKX_sockets st ! w)
                                     \<lparr>os_sent := os_sent (OKX_sockets st ! w) @
                                        [SubscribeFrame channel instId]\<rparr>],
                                OKX_currentChannel := Some channel\<rparr>))
      in st1\<lparr>OKX_prevSymbolMarket := market symbol\<rparr>)"

text \<open>
  A connecting socket opens and its \<^verbatim>\<open>onopen\<close> handler runs.  The handler sends the
  subscribe frame of its call with \<^verbatim>\<open>this._ws?.send\<close>, on the socket held at that moment:
  the frame goes out when that socket is open; no frame goes out when no socket is held or
  when the held socket is not open (\<^verbatim>\<open>send\<close> throws on a connecting socket and drops the
  data on a closing or closed one).
\<close>

definition OKX_onopen :: "nat \<Rightarrow> OKX_state \<Rightarrow> OKX_state" where
  "OKX_onopen w st =
     (if w < length (OKX_sockets st) \<and> os_readyState (OKX_sockets st ! w) = CONNECTING
      then (let s = OKX_sockets st ! w;
                opened = (OKX_sockets st)[w := s\<lparr>os_readyState := OPEN\<rparr>]
            in case OKX_ws st of
                 None \<Rightarrow> st\<lparr>OKX_sockets := opened\<rparr>
               | Some v \<Rightarrow>
                   if os_readyState (opened ! v) = OPEN
                   then st\<lparr>OKX_sockets := opened
                          [v := (opened ! v)\<lparr>os_sent := os_sent (opened ! v) @
                                  [SubscribeFrame (os_channel s) (os_pendingInstId s)]\<rparr>]\<rparr>
                   else st\<lparr>OKX_sockets := opened\<rparr>)
      else st)"

text \<open>
  A parsed message of the socket: its \<^verbatim>\<open>event\<close>, its \<^verbatim>\<open>arg\<close> (the channel and the
  instrument) and its \<^verbatim>\<open>data\<close>, each of which may be missing; \<open>om_data\<close> is \<open>None\<close> also
  when \<^verbatim>\<open>data\<close> is not an array.  A candle is an array of strings.
\<close>

record OKX_message =
  om_event :: "string option"
  om_arg :: "(string \<times> string) option"
  om_data :: "string list list option"

text \<open>
  The loop over the candles of a message, for the callback that the handler captured: the
  calls it makes.  A candle with fewer than six elements is passed over.  Before the call
  the timestamp is printed as a date in the log, which throws when it is not a time that
  \<^verbatim>\<open>Date\<close> can hold; the \<^verbatim>\<open>catch\<close> block of the handler ends the loop there.
\<close>

fun OKX_deliver ::
  "(string option \<Rightarrow> int jsnum) \<Rightarrow> (string option \<Rightarrow> real jsnum) \<Rightarrow> nat \<Rightarrow> string list list \<Rightarrow>
   (nat \<times> (int jsnum, real jsnum) KLine) list" where
  "OKX_deliver parseInt parseFloat pendingCallback [] = []"
| "OKX_deliver parseInt parseFloat pendingCallback (candle # rest) =
     (if length candle \<ge> 6
      then (case parseInt (at_index candle 0) of
              NaN \<Rightarrow> []
            | Number t \<Rightarrow>
                if valid_date t
                then (pendingCallback, OKX_bar parseInt parseFloat candle)
                       # OKX_deliver parseInt parseFloat pendingCallback rest
                else [])
      else OKX_deliver parseInt parseFloat pendingCallback rest)"

text \<open>
  A message arrives on an open socket and the \<^verbatim>\<open>onmessage\<close> handler of that socket runs.
  The payload is \<open>None\<close> when \<^verbatim>\<open>JSON.parse\<close> throws; the handler catches that.  The
  handler compares the message with the \<^verbatim>\<open>channel\<close> and \<^verbatim>\<open>pendingInstId\<close> it captured and
  calls the \<^verbatim>\<open>pendingCallback\<close> it captured; it reads no field of the adapter.
\<close>

definition OKX_onmessage ::
  "(string option \<Rightarrow> int jsnum) \<Rightarrow> (string option \<Rightarrow> real jsnum) \<Rightarrow> nat \<Rightarrow>
   OKX_message option \<Rightarrow> OKX_state \<Rightarrow> OKX_state" where
  "OKX_onmessage parseInt parseFloat w payload st =
     (if w < length (OKX_sockets st) \<and> os_readyState (OKX_sockets st ! w) = OPEN
      then (case payload of
              None \<Rightarrow> st
            | Some message \<Rightarrow>
                if om_event message = Some ''subscribe'' then st
                else if om_event message = Some ''error'' then st
                else (case om_arg message of
                        None \<Rightarrow> st
                      | Some arg \<Rightarrow>
                          if fst arg = os_channel (OKX_sockets st ! w) \<and>
                             snd arg = os_pendingInstId (OKX_sockets st ! w)
                          then (case om_data message of
                                  None \<Rightarrow> st
                                | Some candles \<Rightarrow>
                                    st\<lparr>OKX_calls := OKX_calls st @
                                         OKX_deliver parseInt parseFloat
                                           (os_pendingCallback (OKX_sockets st ! w)) candles\<rparr>)
                          else st))
      else st)"

text \<open>
  A socket that is not yet closed becomes closed.  Its \<^verbatim>\<open>onclose\<close> handler clears the
  variable \<^verbatim>\<open>isConnected\<close>, which nothing reads; the adapter goes on holding the socket.
\<close>

definition OKX_onclose :: "nat \<Rightarrow> OKX_state \<Rightarrow> OKX_state" where
  "OKX_onclose w st =
     (if w < length (OKX_sockets st) \<and> os_readyState (OKX_sockets st ! w) \<noteq> CLOSED
      then st\<lparr>OKX_sockets := (OKX_sockets st)
                 [w := (OKX_sockets st ! w)\<lparr>os_readyState := CLOSED\<rparr>]\<rparr>
      else st)"

text \<open>
  \<^verbatim>\<open>OKXDataFeeds.unsubscribe\<close>: on an open socket an unsubscribe frame is sent; no field of
  the adapter changes.
\<close>

definition OKX_unsubscribe :: "OKX_state \<Rightarrow> SymbolInfo \<Rightarrow> Period \<Rightarrow> OKX_state" where
  "OKX_unsubscribe st symbol period =
     (case OKX_ws st of
        None \<Rightarrow> st
      | Some w \<Rightarrow>
          if os_readyState (OKX_sockets st ! w) = OPEN
          then (let instId = OKX_convertTickerFormat (ticker symbol)
                               (str_or (map_option toUpperCase (priceCurrency symbol)) ''USDT'');
                    bar = OKX_convertPeriodToBar period;
                    channel = ''candles'' @ bar
                in st\<lparr>OKX_sockets := (OKX_sockets st)
                          [w := (OKX_sockets st ! w)
                             \<lparr>os_sent := os_sent (OKX_sockets st ! w) @
                                [UnsubscribeFrame channel instId]\<rparr>]\<rparr>)
          else st)"

text \<open>What can happen to the adapter, and a run of such events from a state.\<close>

datatype OKX_event =
    OKX_Subscribe SymbolInfo Period nat
  | OKX_Unsubscribe SymbolInfo Period
  | OKX_Opened nat
  | OKX_Message nat "OKX_message option"
  | OKX_Closed nat

fun OKX_step ::
  "(string option \<Rightarrow> int jsnum) \<Rightarrow> (string option \<Rightarrow> real jsnum) \<Rightarrow> OKX_state \<Rightarrow> OKX_event \<Rightarrow>
   OKX_state" where
  "OKX_step parseInt parseFloat st (OKX_Subscribe symbol period callback) =
     OKX_subscribe st symbol period callback"
| "OKX_step parseInt parseFloat st (OKX_Unsubscribe symbol period) =
     OKX_unsubscribe st symbol period"
| "OKX_step parseInt parseFloat st (OKX_Opened w) = OKX_onopen w st"
| "OKX_step parseInt parseFloat st (OKX_Message w payload) =
     OKX_onmessage parseInt parseFloat w payload st"
| "OKX_step parseInt parseFloat st (OKX_Closed w) = OKX_onclose w st"

definition OKX_run ::
  "(string option \<Rightarrow> int jsnum) \<Rightarrow> (string option \<Rightarrow> real jsnum) \<Rightarrow> OKX_state \<Rightarrow>
   OKX_event list \<Rightarrow> OKX_state" where
  "OKX_run parseInt parseFloat st events = foldl (OKX_step parseInt parseFloat) st events"

section \<open>The live subscription of DefaultDatafeed\<close>

text \<open>A frame sent on a socket: its \<^verbatim>\<open>action\<close> and its \<^verbatim>\<open>params\<close>.\<close>

datatype Default_frame = Frame string string

text \<open>
  A socket created by \<^verbatim>\<open>DefaultDatafeed.subscribe\<close>: what its handlers captured (the
  \<^verbatim>\<open>pendingSubscription\<close> and the \<^verbatim>\<open>callback\<close> of the call that created it, and the flag
  \<^verbatim>\<open>isAuthenticated\<close>), its state and the frames sent on it.  The adapter has no field for
  the callback and none for a channel.
\<close>

record Default_socket =
  ds_pendingSubscription :: string
  ds_callback :: nat
  ds_isAuthenticated :: bool
  ds_readyState :: readyState
  ds_sent :: "Default_frame list"

record Default_state =
  Default_apiKey :: string
  Default_prevSymbolMarket :: "string option"
  Default_ws :: "nat option"
  Default_sockets :: "Default_socket list"
  Default_calls :: "(nat \<times> KLineData) list"

text \<open>The state the constructor leaves.\<close>

definition Default_init :: "string \<Rightarrow> Default_state" where
  "Default_init apiKey =
     \<lparr>Default_apiKey = apiKey, Default_prevSymbolMarket = None, Default_ws = None,
      Default_sockets = [], Default_calls = []\<rparr>"

text \<open>
  \<^verbatim>\<open>this._ws?.send(frame)\<close> inside a handler: nothing happens when no socket is held; on a
  connecting socket \<^verbatim>\<open>send\<close> throws; on an open socket the frame goes out; on a closing or
  closed socket the data is dropped.
\<close>

definition Default_send :: "Default_frame \<Rightarrow> Default_state \<Rightarrow> error + Default_state" where
  "Default_send frame st =
     (case Default_ws st of
        None \<Rightarrow> Inr st
      | Some v \<Rightarrow>
          if ds_readyState (Default_sockets st ! v) = CONNECTING
          then Inl (Thrown ''InvalidStateError'' ''Still in CONNECTING state'')
          else if ds_readyState (Default_sockets st ! v) = OPEN
          then Inr (st\<lparr>Default_sockets := (Default_sockets st)
                         [v := (Default_sockets st ! v)
                            \<lparr>ds_sent := ds_sent (Default_sockets st ! v) @ [frame]\<rparr>]\<rparr>)
          else Inr st)"

text \<open>
  \<^verbatim>\<open>DefaultDatafeed.subscribe\<close>.  A new connection is made when the market of the symbol
  changed, when no socket is held or when the held socket is not open; the held socket, if
  any, is closed first.  Otherwise a subscribe frame is sent on the held socket.  The period
  is not read.  The callback goes into the handlers of a new socket only.
\<close>

definition Default_subscribe ::
  "Default_state \<Rightarrow> SymbolInfo \<Rightarrow> Period \<Rightarrow> nat \<Rightarrow> Default_state" where
  "Default_subscribe st symbol period callback =
     (let t = Default_convertTickerFormat (ticker symbol);
          st1 =
            (case Default_ws st of
               None \<Rightarrow>
                 st\<lparr>Default_sockets := Default_sockets st @
                       [\<lparr>ds_pendingSubscription = t, ds_callback = callback,
                         ds_isAuthenticated = False, ds_readyState = CONNECTING, ds_sent = []\<rparr>],
                    Default_ws := Some (length (Default_sockets st))\<rparr>
             | Some w \<Rightarrow>
                 if Default_prevSymbolMarket st \<noteq> market symbol \<or>
                    ds_readyState (Default_sockets st ! w) \<noteq> OPEN
                 then
                   (let closed = (Default_sockets st)
                          [w := (Default_sockets st ! w)
                             \<lparr>ds_readyState := ws_close (ds_readyState (Default_sockets st ! w))\<rparr>]
                    in st\<lparr>Default_sockets := closed @
                             [\<lparr>ds_pendingSubscription = t, ds_callback = callback,
                               ds_isAuthenticated = False, ds_readyState = CONNECTING,
                               ds_sent = []\<rparr>],
                          Default_ws := Some (length closed)\<rparr>)
                 else
                   st\<lparr>Default_sockets := (Default_sockets st)
                        [w := (Default_sockets st ! w)
                           \<lparr>ds_sent := ds_sent (Default_sockets st ! w) @
                              [Frame ''subscribe'' (''XA.'' @ t)]\<rparr>]\<rparr>)
      in st1\<lparr>Default_prevSymbolMarket := market symbol\<rparr>)"

text \<open>
  A connecting socket opens and its \<^verbatim>\<open>onopen\<close> handler runs: it sends the authentication
  frame with \<^verbatim>\<open>this._ws?.send\<close>, on the socket held at that moment.
\<close>

definition Default_onopen :: "nat \<Rightarrow> Default_state \<Rightarrow> Default_state" where
  "Default_onopen w st =
     (if w < length (Default_sockets st) \<and> ds_readyState (Default_sockets st ! w) = CONNECTING
      then (let opened = st\<lparr>Default_sockets := (Default_sockets st)
                               [w := (Default_sockets st ! w)\<lparr>ds_readyState := OPEN\<rparr>]\<rparr>
            in case Default_send (Frame ''auth'' (Default_apiKey st)) opened of
                 Inl e \<Rightarrow> opened
               | Inr sent \<Rightarrow> sent)
      else st)"

text \<open>
  One element of a parsed message.  Each field may be missing; the prices of an aggregate
  are numbers.
\<close>

record Default_item =
  di_ev :: "string option"
  di_status :: "string option"
  di_type :: "string option"
  di_action :: "string option"
  di_message :: "string option"
  di_pair :: "string option"
  di_s :: "int option"
  di_o :: real
  di_h :: real
  di_l :: real
  di_c :: real
  di_v :: real
  di_vw :: "real option"

text \<open>A string that may be missing, as a condition: missing and empty are falsy.\<close>

definition str_truthy :: "string option \<Rightarrow> bool" where
  "str_truthy x = (case x of None \<Rightarrow> False | Some s \<Rightarrow> s \<noteq> [])"

text \<open>The bar built from one aggregate of the socket.\<close>

definition Default_live_bar :: "int \<Rightarrow> Default_item \<Rightarrow> KLineData" where
  "Default_live_bar s d =
     \<lparr>timestamp = s, open_price = di_o d, high = di_h d, low = di_l d, close = di_c d,
      volume = di_v d,
      turnover = (case di_vw d of Some w \<Rightarrow> if w = 0 then di_c d * di_v d else w
                  | None \<Rightarrow> di_c d * di_v d)\<rparr>"

text \<open>
  The loop of the \<^verbatim>\<open>onmessage\<close> handler of socket \<open>w\<close> over the elements of a message.  A
  status element with \<^verbatim>\<open>auth_failed\<close> closes the held socket and ends the handler; the first
  one that reports success sets \<^verbatim>\<open>isAuthenticated\<close> and sends the subscribe frame for the
  \<^verbatim>\<open>pendingSubscription\<close> that the handler captured.  An aggregate whose pair is that
  \<^verbatim>\<open>pendingSubscription\<close> is passed to the \<^verbatim>\<open>callback\<close> that the handler captured, after its
  start time has been printed as a date in the log.  An exception (of \<^verbatim>\<open>send\<close>, or of the
  date) is caught by the handler, which ends the loop.
\<close>

fun Default_handle :: "nat \<Rightarrow> Default_item list \<Rightarrow> Default_state \<Rightarrow> Default_state" where
  "Default_handle w [] st = st"
| "Default_handle w (d # rest) st =
     (if di_ev d = Some ''status'' \<or> str_truthy (di_status d) \<or> di_type d = Some ''status'' \<or>
         str_truthy (di_action d)
      then
        (if di_status d = Some ''auth_failed''
         then (case Default_ws st of
                 None \<Rightarrow> st
               | Some v \<Rightarrow>
                   st\<lparr>Default_sockets := (Default_sockets st)
                        [v := (Default_sockets st ! v)
                           \<lparr>ds_readyState := ws_close (ds_readyState (Default_sockets st ! v))\<rparr>]\<rparr>)
         else if \<not> ds_isAuthenticated (Default_sockets st ! w) \<and>
                 (di_status d = Some ''auth_success'' \<or> di_status d = Some ''success'' \<or>
                  (case di_message d of None \<Rightarrow> False | Some m \<Rightarrow> str_includes m ''success''))
         then (case Default_send
                      (Frame ''subscribe''
                         (''XA.'' @ ds_pendingSubscription (Default_sockets st ! w)))
                      (st\<lparr>Default_sockets := (Default_sockets st)
                            [w := (Default_sockets st ! w)\<lparr>ds_isAuthenticated := True\<rparr>]\<rparr>) of
                 Inl e \<Rightarrow>
                   st\<lparr>Default_sockets := (Default_sockets st)
                        [w := (Default_sockets st ! w)\<lparr>ds_isAuthenticated := True\<rparr>]\<rparr>
               | Inr sent \<Rightarrow> Default_handle w rest sent)
         else Default_handle w rest st)
      else if di_ev d = Some ''XA''
      then
        (if di_pair d = Some (ds_pendingSubscription (Default_sockets st ! w))
         then (case di_s d of
                 None \<Rightarrow> st
               | Some s \<Rightarrow>
                   if valid_date s
                   then Default_handle w rest
                          (st\<lparr>Default_calls := Default_calls st @
                                [(ds_callback (Default_sockets st ! w), Default_live_bar s d)]\<rparr>)
                   else st)
         else Default_handle w rest st)
      else Default_handle w rest st)"

text \<open>
  A message arrives on an open socket and the \<^verbatim>\<open>onmessage\<close> handler of that socket runs.
  The payload is \<open>None\<close> when \<^verbatim>\<open>JSON.parse\<close> throws, and the list of the elements otherwise
  (one element when the message is not an array).
\<close>

definition Default_onmessage ::
  "nat \<Rightarrow> Default_item list option \<Rightarrow> Default_state \<Rightarrow> Default_state" where
  "Default_onmessage w payload st =
     (if w < length (Default_sockets st) \<and> ds_readyState (Default_sockets st ! w) = OPEN
      then (case payload of None \<Rightarrow> st | Some messages \<Rightarrow> Default_handle w messages st)
      else st)"

text \<open>
  A socket that is not yet closed becomes closed, and its \<^verbatim>\<open>onclose\<close> handler clears
  \<^verbatim>\<open>isAuthenticated\<close>; the adapter goes on holding the socket.
\<close>

definition Default_onclose :: "nat \<Rightarrow> Default_state \<Rightarrow> Default_state" where
  "Default_onclose w st =
     (if w < length (Default_sockets st) \<and> ds_readyState (Default_sockets st ! w) \<noteq> CLOSED
      then st\<lparr>Default_sockets := (Default_sockets st)
                 [w := (Default_sockets st ! w)
                    \<lparr>ds_readyState := CLOSED, ds_isAuthenticated := False\<rparr>]\<rparr>
      else st)"

text \<open>\<^verbatim>\<open>DefaultDatafeed.unsubscribe\<close>: on an open socket an unsubscribe frame is sent.\<close>

definition Default_unsubscribe :: "Default_state \<Rightarrow> SymbolInfo \<Rightarrow> Period \<Rightarrow> Default_state" where
  "Default_unsubscribe st symbol period =
     (case Default_ws st of
        None \<Rightarrow> st
      | Some w \<Rightarrow>
          if ds_readyState (Default_sockets st ! w) = OPEN
          then st\<lparr>Default_sockets := (Default_sockets st)
                    [w := (Default_sockets st ! w)
                       \<lparr>ds_sent := ds_sent (Default_sockets st ! w) @
                          [Frame ''unsubscribe''
                             (''XA.'' @ Default_convertTickerFormat (ticker symbol))]\<rparr>]\<rparr>
          else st)"

datatype Default_event =
    Default_Subscribe SymbolInfo Period nat
  | Default_Unsubscribe SymbolInfo Period
  | Default_Opened nat
  | Default_Message nat "Default_item list option"
  | Default_Closed nat

fun Default_step :: "Default_state \<Rightarrow> Default_event \<Rightarrow> Default_state" where
  "Default_step st (Default_Subscribe symbol period callback) =
     Default_subscribe st symbol period callback"
| "Default_step st (Default_Unsubscribe symbol period) = Default_unsubscribe st symbol period"
| "Default_step st (Default_Opened w) = Default_onopen w st"
| "Default_step st (Default_Message w payload) = Default_onmessage w payload st"
| "Default_step st (Default_Closed w) = Default_onclose w st"

definition Default_run :: "Default_state \<Rightarrow> Default_event list \<Rightarrow> Default_state" where
  "Default_run st events = foldl Default_step st events"

section \<open>The live subscription of CCXTDataFeeds\<close>

text \<open>
  The closure of one subscription: the symbol, the timeframe and the callback that
  \<^verbatim>\<open>_subscribePolling\<close> or \<^verbatim>\<open>_subscribeWebSocket\<close> was called with.
\<close>

record CCXT_closure =
  cc_symbol :: string
  cc_timeframe :: string
  cc_callback :: nat

text \<open>
  The fields of the adapter, and beside them the interval timers that are set (by their
  number, with the closure of \<^verbatim>\<open>fetchLatest\<close>), the number of the next timer, the watch
  loops that were started, and the calls made to a callback.  \<^verbatim>\<open>this._ws\<close> is never
  assigned.  A timer number is never zero, as \<^verbatim>\<open>if (this._pollingInterval)\<close> expects.
\<close>

record CCXT_state =
  CCXT_currentCallback :: "nat option"
  CCXT_pollingInterval :: "nat option"
  CCXT_lastTimestamp :: "int option"
  CCXT_ws :: "nat option"
  CCXT_prevSymbolMarket :: "string option"
  CCXT_timers :: "(nat \<times> CCXT_closure) list"
  CCXT_nextTimer :: nat
  CCXT_watchLoops :: "CCXT_closure list"
  CCXT_calls :: "(nat \<times> KLineData) list"

definition CCXT_init :: CCXT_state where
  "CCXT_init =
     \<lparr>CCXT_currentCallback = None, CCXT_pollingInterval = None, CCXT_lastTimestamp = None,
      CCXT_ws = None, CCXT_prevSymbolMarket = None, CCXT_timers = [], CCXT_nextTimer = 1,
      CCXT_watchLoops = [], CCXT_calls = []\<rparr>"

text \<open>\<^verbatim>\<open>clearInterval(id)\<close>.\<close>

definition clearInterval :: "nat \<Rightarrow> CCXT_state \<Rightarrow> CCXT_state" where
  "clearInterval i st = st\<lparr>CCXT_timers := filter (\<lambda>t. fst t \<noteq> i) (CCXT_timers st)\<rparr>"

text \<open>
  \<^verbatim>\<open>CCXTDataFeeds.unsubscribe\<close>: the symbol and the period are not read.  The callback and
  the last timestamp are cleared, the polling timer is stopped, the socket is dropped.
\<close>

definition CCXT_unsubscribe :: "CCXT_state \<Rightarrow> SymbolInfo \<Rightarrow> Period \<Rightarrow> CCXT_state" where
  "CCXT_unsubscribe st symbol period =
     (let st1 = st\<lparr>CCXT_currentCallback := None, CCXT_lastTimestamp := None\<rparr>;
          st2 = (case CCXT_pollingInterval st1 of
                   None \<Rightarrow> st1
                 | Some i \<Rightarrow> (clearInterval i st1)\<lparr>CCXT_pollingInterval := None\<rparr>)
      in st2\<lparr>CCXT_ws := None\<rparr>)"

text \<open>
  The part of \<^verbatim>\<open>fetchLatest\<close> after \<^verbatim>\<open>await fetchOHLCV\<close>, with the outcome of the request.
  An error is caught and logged.  Of the candles that came, the last one is taken; it is
  passed to the callback of the closure when \<^verbatim>\<open>!this._lastTimestamp\<close> holds (no timestamp is
  stored, or the stored one is zero) or its timestamp is above the stored one, and then its
  timestamp is stored.
\<close>

definition CCXT_fetchLatest_resume ::
  "nat \<Rightarrow> error + Candle list \<Rightarrow> CCXT_state \<Rightarrow> CCXT_state" where
  "CCXT_fetchLatest_resume callback outcome st =
     (case outcome of
        Inl e \<Rightarrow> st
      | Inr ohlcv \<Rightarrow>
          if length ohlcv > 0
          then (let latestCandle = ohlcv ! (length ohlcv - 1)
                in if (case CCXT_lastTimestamp st of None \<Rightarrow> True
                       | Some l \<Rightarrow> l = 0 \<or> c_timestamp latestCandle > l)
                   then st\<lparr>CCXT_lastTimestamp := Some (c_timestamp latestCandle),
                           CCXT_calls := CCXT_calls st @ [(callback, CCXT_bar latestCandle)]\<rparr>
                   else st)
          else st)"

text \<open>
  One run of \<^verbatim>\<open>fetchLatest\<close>, for the closure with the given callback, that meets the given
  outcome of its request: nothing is requested when no callback is stored.  The \<^verbatim>\<open>since\<close>
  argument of the request is not modelled: the outcome is whatever the exchange answers.
\<close>

definition CCXT_fetchLatest :: "nat \<Rightarrow> CCXT_state \<Rightarrow> error + Candle list \<Rightarrow> CCXT_state" where
  "CCXT_fetchLatest callback st outcome =
     (if CCXT_currentCallback st = None then st
      else CCXT_fetchLatest_resume callback outcome st)"

text \<open>
  \<^verbatim>\<open>CCXTDataFeeds._subscribePolling\<close>: the timer that is set, if any, is stopped, and a new
  one is set with the closure of this call.  The first run of \<^verbatim>\<open>fetchLatest\<close>, started
  here, is part of the polling ticks below.
\<close>

definition CCXT_subscribePolling :: "CCXT_state \<Rightarrow> string \<Rightarrow> string \<Rightarrow> nat \<Rightarrow> CCXT_state" where
  "CCXT_subscribePolling st symbol timeframe callback =
     (let st1 = (case CCXT_pollingInterval st of None \<Rightarrow> st | Some i \<Rightarrow> clearInterval i st)
      in st1\<lparr>CCXT_pollingInterval := Some (CCXT_nextTimer st1),
             CCXT_timers := CCXT_timers st1 @
               [(CCXT_nextTimer st1,
                 \<lparr>cc_symbol = symbol, cc_timeframe = timeframe, cc_callback = callback\<rparr>)],
             CCXT_nextTimer := Suc (CCXT_nextTimer st1)\<rparr>)"

text \<open>
  \<^verbatim>\<open>CCXTDataFeeds.subscribe\<close>.  \<open>has_watchOHLCV\<close> is the capability flag of the exchange:
  with it a watch loop is started, without it the polling.
\<close>

definition CCXT_subscribe ::
  "bool \<Rightarrow> CCXT_state \<Rightarrow> SymbolInfo \<Rightarrow> Period \<Rightarrow> nat \<Rightarrow> CCXT_state" where
  "CCXT_subscribe has_watchOHLCV st symbol period callback =
     (let ccxtSymbol = CCXT_convertTickerToSymbol symbol;
          timeframe = CCXT_convertPeriodToTimeframe period;
          st1 = CCXT_unsubscribe st symbol period;
          st2 = st1\<lparr>CCXT_currentCallback := Some callback\<rparr>;
          st3 = (if has_watchOHLCV
                 then st2\<lparr>CCXT_watchLoops := CCXT_watchLoops st2 @
                        [\<lparr>cc_symbol = ccxtSymbol, cc_timeframe = timeframe,
                          cc_callback = callback\<rparr>]\<rparr>
                 else CCXT_subscribePolling st2 ccxtSymbol timeframe callback)
      in st3\<lparr>CCXT_prevSymbolMarket := market symbol\<rparr>)"

text \<open>
  The polling ticks of one subscription, in the order in which their requests come back:
  each is a run of \<^verbatim>\<open>fetchLatest\<close> with the callback of the subscription.
\<close>

definition CCXT_poll :: "nat \<Rightarrow> CCXT_state \<Rightarrow> (error + Candle list) list \<Rightarrow> CCXT_state" where
  "CCXT_poll callback st outcomes = foldl (CCXT_fetchLatest callback) st outcomes"

section \<open>Predicates for the polling ticks\<close>

text \<open>
  What holds of the calls made so far when no stored timestamp is zero: their timestamps
  ascend strictly, and the stored timestamp bounds them.
\<close>

definition poll_inv :: "CCXT_state \<Rightarrow> bool" where
  "poll_inv st =
     (sorted_wrt (<) (map (\<lambda>c. timestamp (snd c)) (CCXT_calls st)) \<and>
      (case CCXT_lastTimestamp st of
         None \<Rightarrow> CCXT_calls st = []
       | Some l \<Rightarrow> l \<noteq> 0 \<and> list_all (\<lambda>c. timestamp (snd c) \<le> l) (CCXT_calls st)))"

text \<open>An outcome whose last candle, if there is one, has a timestamp other than zero.\<close>

definition nonzero_outcome :: "error + Candle list \<Rightarrow> bool" where
  "nonzero_outcome outcome =
     (case outcome of Inl e \<Rightarrow> True | Inr cs \<Rightarrow> cs = [] \<or> c_timestamp (last cs) \<noteq> 0)"

section \<open>Inputs for the examples\<close>

text \<open>
  A reading of \<^verbatim>\<open>parseInt(s, 10)\<close> and \<^verbatim>\<open>parseFloat(s)\<close> for the examples: it agrees with
  the builtins on \<^verbatim>\<open>undefined\<close>, on the empty string and on strings of decimal digits.
  The theorems hold for every pair of parsing functions.
\<close>

definition digits_value :: "string \<Rightarrow> int jsnum" where
  "digits_value s =
     (if s \<noteq> [] \<and> list_all (\<lambda>c. 48 \<le> (of_char c :: nat) \<and> (of_char c :: nat) \<le> 57) s
      then Number (foldl (\<lambda>n c. 10 * n + (int (of_char c) - 48)) 0 s)
      else NaN)"

definition example_parseInt :: "string option \<Rightarrow> int jsnum" where
  "example_parseInt x = (case x of None \<Rightarrow> NaN | Some s \<Rightarrow> digits_value s)"

definition example_parseFloat :: "string option \<Rightarrow> real jsnum" where
  "example_parseFloat x =
     (case example_parseInt x of NaN \<Rightarrow> NaN | Number i \<Rightarrow> Number (of_int i))"

text \<open>A response with status 200 and a body that parses to \<open>j\<close>.\<close>

definition ok_response :: "'j \<Rightarrow> 'j response" where
  "ok_response j =
     \<lparr>resp_ok = True, resp_status = 200, resp_statusText = ''OK'', resp_text = Inr [],
      resp_json = Inr j\<rparr>"

text \<open>A response with status 500 whose body is not JSON.\<close>

definition server_error_response :: "'j response" where
  "server_error_response =
     \<lparr>resp_ok = False, resp_status = 500, resp_statusText = ''Internal Server Error'',
      resp_text = Inr ''oops'',
      resp_json = Inl (Thrown ''SyntaxError'' ''Unexpected token'')\<rparr>"

text \<open>A response with status 200 whose body is not JSON.\<close>

definition malformed_response :: "'j response" where
  "malformed_response =
     \<lparr>resp_ok = True, resp_status = 200, resp_statusText = ''OK'', resp_text = Inr ''<html>'',
      resp_json = Inl (Thrown ''SyntaxError'' ''Unexpected token'')\<rparr>"

definition BTC :: SymbolInfo where
  "BTC = \<lparr>ticker = ''BTC-USDT'', shortName = Some ''BTC'', market = Some ''crypto'',
          priceCurrency = Some ''USDT''\<rparr>"

definition ETH :: SymbolInfo where
  "ETH = \<lparr>ticker = ''ETH-USDT'', shortName = Some ''ETH'', market = Some ''crypto'',
          priceCurrency = Some ''USDT''\<rparr>"

definition min1 :: Period where
  "min1 = \<lparr>multiplier = 1, timespan = ''minute''\<rparr>"

definition min15 :: Period where
  "min15 = \<lparr>multiplier = 15, timespan = ''minute''\<rparr>"

text \<open>A candle and an aggregate with the given timestamp and fixed prices.\<close>

definition candle_at :: "int \<Rightarrow> Candle" where
  "candle_at t = \<lparr>c_timestamp = t, c_open = 1, c_high = 2, c_low = 1, c_close = 2, c_volume = 10\<rparr>"

definition aggregate_at :: "int \<Rightarrow> Aggregate" where
  "aggregate_at t = \<lparr>agg_s = None, agg_t = t, agg_o = 1, agg_h = 2, agg_l = 1, agg_c = 2,
                     agg_v = 10, agg_vw = None\<rparr>"

text \<open>A network that answers every request with the same response.\<close>

definition fetch_always :: "'r \<Rightarrow> nat \<Rightarrow> string \<Rightarrow> error + 'r" where
  "fetch_always r k url = Inr r"

text \<open>
  A network that answers the successive requests of a call with the outcomes of a list, and
  rejects every request after the last of them.
\<close>

definition fetch_script :: "(error + 'r) list \<Rightarrow> nat \<Rightarrow> string \<Rightarrow> error + 'r" where
  "fetch_script outcomes k url =
     (if k < length outcomes then outcomes ! k else Inl (Thrown ''TypeError'' ''Failed to fetch''))"

text \<open>
  A CCXT library whose \<^verbatim>\<open>fetchOHLCV\<close> returns the same candles on every call, one that fails
  on every call, and one that answers the successive calls with the outcomes of a list.
\<close>

definition fetchOHLCV_always ::
  "Candle list \<Rightarrow> nat \<Rightarrow> string \<Rightarrow> string \<Rightarrow> int \<Rightarrow> int \<Rightarrow> error + Candle list" where
  "fetchOHLCV_always cs k s tf since limit = Inr cs"

definition fetchOHLCV_failing ::
  "error \<Rightarrow> nat \<Rightarrow> string \<Rightarrow> string \<Rightarrow> int \<Rightarrow> int \<Rightarrow> error + Candle list" where
  "fetchOHLCV_failing e k s tf since limit = Inl e"

definition fetchOHLCV_script ::
  "(error + Candle list) list \<Rightarrow> nat \<Rightarrow> string \<Rightarrow> string \<Rightarrow> int \<Rightarrow> int \<Rightarrow> error + Candle list" where
  "fetchOHLCV_script outcomes k s tf since limit =
     (if k < length outcomes then outcomes ! k
      else Inl (Thrown ''NetworkError'' ''request failed''))"

text \<open>
  A CCXT library whose \<^verbatim>\<open>loadMarkets\<close> returns the same markets on every call, and one that
  answers the successive calls with the outcomes of a list.
\<close>

definition loadMarkets_always :: "'m \<Rightarrow> nat \<Rightarrow> error + 'm" where
  "loadMarkets_always m k = Inr m"

definition loadMarkets_script :: "(error + 'm) list \<Rightarrow> nat \<Rightarrow> error + 'm" where
  "loadMarkets_script outcomes k =
     (if k < length outcomes then outcomes ! k
      else Inl (Thrown ''NetworkError'' ''request failed''))"

text \<open>
  \<^verbatim>\<open>encodeURIComponent\<close> on a string of unreserved characters, such as the tickers of the
  examples: the string itself.
\<close>

definition encode_unreserved :: "string \<Rightarrow> error + string" where
  "encode_unreserved s = Inr s"

text \<open>Two candles of an OKX response, the newer one first.\<close>

definition okx_newest_first :: OKX_result where
  "okx_newest_first =
     \<lparr>code = ''0'', msg = [],
      data = Some [[''2000'', ''1'', ''2'', ''1'', ''2'', ''10''],
                   [''1000'', ''1'', ''2'', ''1'', ''2'', ''10'']]\<rparr>"

text \<open>An OKX response with status 200 that reports an error of the interface.\<close>

definition okx_error_result :: OKX_result where
  "okx_error_result = \<lparr>code = ''51001'', msg = ''Instrument ID does not exist'', data = None\<rparr>"

text \<open>
  A symbol in the notation that \<^verbatim>\<open>DefaultDatafeed\<close> expects, and messages of the two
  sockets: a candle of \<^verbatim>\<open>BTC-USDT\<close> on the channel \<^verbatim>\<open>candles1m\<close>, the answer to a successful
  authentication, and an aggregate of \<^verbatim>\<open>BTC-USD\<close>.
\<close>

definition XBTC :: SymbolInfo where
  "XBTC = \<lparr>ticker = ''X.BTCUSD'', shortName = Some ''BTC'', market = Some ''crypto'',
           priceCurrency = Some ''USD''\<rparr>"

definition okx_candle_message :: OKX_message where
  "okx_candle_message =
     \<lparr>om_event = None, om_arg = Some (''candles1m'', ''BTC-USDT''),
      om_data = Some [[''60000'', ''1'', ''2'', ''1'', ''2'', ''10'']]\<rparr>"

definition auth_success_item :: Default_item where
  "auth_success_item =
     \<lparr>di_ev = Some ''status'', di_status = Some ''auth_success'', di_type = None,
      di_action = None, di_message = Some ''authenticated'', di_pair = None, di_s = None,
      di_o = 0, di_h = 0, di_l = 0, di_c = 0, di_v = 0, di_vw = None\<rparr>"

definition xa_item :: Default_item where
  "xa_item =
     \<lparr>di_ev = Some ''XA'', di_status = None, di_type = None, di_action = None,
      di_message = None, di_pair = Some ''BTC-USD'', di_s = Some 60000,
      di_o = 1, di_h = 2, di_l = 1, di_c = 2, di_v = 10, di_vw = None\<rparr>"

section \<open>Facts about the string operations\<close>

lemma str_includes_char: "str_includes s [c] \<longleftrightarrow> c \<in> set s"
  by (induction s) (auto simp: startsWith_def)

lemma startsWith_decomp: "startsWith s p \<Longrightarrow> s = p @ drop (length p) s"
  by (simp add: startsWith_def) (metis append_take_drop_id)

lemma startsWith_append: "startsWith s p \<Longrightarrow> startsWith (s @ r) p"
proof -
  assume "startsWith s p"
  then have t: "take (length p) s = p" by (simp add: startsWith_def)
  then have "length (take (length p) s) = length p" by simp
  then have "length p \<le> length s" by simp
  with t show ?thesis by (simp add: startsWith_def)
qed

lemma drop_pred_Cons: "sep \<noteq> [] \<Longrightarrow> drop (length sep - 1) cs = drop (length sep) (c # cs)"
  by (cases sep) simp_all

lemma split_from_length: "length (split_from sep cur s) = Suc (occurrences sep s)"
  by (induction sep cur s rule: split_from.induct) simp_all

lemma split_from_zero: "occurrences sep s = 0 \<Longrightarrow> split_from sep cur s = [cur @ s]"
  by (induction sep cur s rule: split_from.induct) (simp_all split: if_splits)

lemma occurrences_zero_iff:
  "sep \<noteq> [] \<Longrightarrow> occurrences sep s = 0 \<longleftrightarrow> \<not> str_includes s sep"
  by (induction sep s rule: occurrences.induct) (auto simp: startsWith_def)

text \<open>
  With exactly one occurrence the split has two pieces: what stands before the separator
  and what stands after it, and neither holds the separator.
\<close>

lemma split_from_one:
  "sep \<noteq> [] \<Longrightarrow> occurrences sep s = 1 \<Longrightarrow>
   \<exists>a b. s = a @ sep @ b \<and> \<not> str_includes a sep \<and> \<not> str_includes b sep \<and>
         split_from sep cur s = [cur @ a, b]"
proof (induction sep cur s rule: split_from.induct)
  case (1 sep cur)
  then show ?case by simp
next
  case (2 sep cur c cs)
  show ?case
  proof (cases "startsWith (c # cs) sep")
    case True
    let ?rest = "drop (length sep - 1) cs"
    from True 2 have z: "occurrences sep ?rest = 0" by simp
    have r: "?rest = drop (length sep) (c # cs)" using 2(3) by (rule drop_pred_Cons)
    have "c # cs = [] @ sep @ ?rest" using startsWith_decomp [OF True] r by simp
    moreover have "\<not> str_includes ?rest sep" using z 2(3) by (simp add: occurrences_zero_iff)
    moreover have "\<not> str_includes [] sep" using 2(3) by simp
    moreover have "split_from sep cur (c # cs) = [cur @ [], ?rest]"
      using True split_from_zero [OF z, of "[]"] by simp
    ultimately show ?thesis by blast
  next
    case False
    with 2 have "occurrences sep cs = 1" by simp
    from 2(2) [OF False 2(3) this] obtain a b where
      ab: "cs = a @ sep @ b" "\<not> str_includes a sep" "\<not> str_includes b sep"
        "split_from sep (cur @ [c]) cs = [(cur @ [c]) @ a, b]" by blast
    have eq: "c # cs = (c # a) @ sep @ b" using ab(1) by simp
    have "\<not> startsWith (c # a) sep"
    proof
      assume "startsWith (c # a) sep"
      then have "startsWith ((c # a) @ sep @ b) sep" by (rule startsWith_append)
      with False eq show False by simp
    qed
    then have "\<not> str_includes (c # a) sep" using ab(2) by simp
    moreover have "split_from sep cur (c # cs) = [cur @ (c # a), b]" using False ab(4) by simp
    ultimately show ?thesis using eq ab(3) by blast
  qed
qed

lemma replace_first_slash:
  "CHR ''-'' \<in> set s \<Longrightarrow> CHR ''/'' \<in> set (replace_first (CHR ''-'') ''/'' s)"
  by (induction s) auto

text \<open>
  \<^verbatim>\<open>DefaultDatafeed._convertTickerFormat\<close> on a ticker without \<^verbatim>\<open>-\<close>, in terms of what is
  left of the ticker once the prefix has been dealt with.
\<close>

lemma Default_split_after_strip:
  assumes "\<not> str_includes t ''-''"
  shows "length (str_split (remove_prefix ''X.'' t) ''USD'')
           = Suc (occurrences ''USD'' (remove_prefix ''X.'' t)) \<and>
         (occurrences ''USD'' (remove_prefix ''X.'' t) = 1 \<longrightarrow>
            (\<exists>a b. remove_prefix ''X.'' t = a @ ''USD'' @ b \<and>
                   \<not> str_includes a ''USD'' \<and> \<not> str_includes b ''USD'' \<and>
                   Default_convertTickerFormat t = a @ ''-USD'')) \<and>
         (occurrences ''USD'' (remove_prefix ''X.'' t) \<noteq> 1 \<longrightarrow>
            Default_convertTickerFormat t = t)"
proof (intro conjI impI)
  show "length (str_split (remove_prefix ''X.'' t) ''USD'')
      = Suc (occurrences ''USD'' (remove_prefix ''X.'' t))"
    by (simp add: str_split_def split_from_length)
next
  assume one: "occurrences ''USD'' (remove_prefix ''X.'' t) = 1"
  have ne: "''USD'' \<noteq> []" by simp
  from split_from_one [OF ne one, of "[]"] obtain a b where
    ab: "remove_prefix ''X.'' t = a @ ''USD'' @ b" "\<not> str_includes a ''USD''"
      "\<not> str_includes b ''USD''" "split_from ''USD'' [] (remove_prefix ''X.'' t) = [[] @ a, b]"
    by blast
  from ab(4) assms have "Default_convertTickerFormat t = a @ ''-USD''"
    by (simp add: Default_convertTickerFormat_def str_split_def)
  with ab show "\<exists>a b. remove_prefix ''X.'' t = a @ ''USD'' @ b \<and>
      \<not> str_includes a ''USD'' \<and> \<not> str_includes b ''USD'' \<and>
      Default_convertTickerFormat t = a @ ''-USD''"
    by blast
next
  assume "occurrences ''USD'' (remove_prefix ''X.'' t) \<noteq> 1"
  then have "length (str_split (remove_prefix ''X.'' t) ''USD'') \<noteq> 2"
    by (simp add: str_split_def split_from_length)
  with assms show "Default_convertTickerFormat t = t"
    by (simp add: Default_convertTickerFormat_def Let_def)
qed

lemma remove_prefix_present: "remove_prefix p (p @ s) = s"
  by (simp add: remove_prefix_def startsWith_def)

lemma remove_prefix_absent: "\<not> startsWith t p \<Longrightarrow> remove_prefix p t = t"
  by (simp add: remove_prefix_def)

section \<open>Facts about the interval conversion\<close>

lemma supportedPeriods_cases:
  "map_of supportedPeriods ts = Some vs \<Longrightarrow>
   (ts = ''minute'' \<and> vs = [1, 3, 5, 15, 30]) \<or> (ts = ''hour'' \<and> vs = [1, 2, 4, 6, 12]) \<or>
   (ts = ''day'' \<and> vs = [1]) \<or> (ts = ''week'' \<and> vs = [1]) \<or> (ts = ''month'' \<and> vs = [1])"
  by (auto simp: supportedPeriods_def split: if_splits)

text \<open>
  The loop on a table in ascending order: it finds the largest value that the multiplier
  reaches.
\<close>

lemma find_rev_sorted:
  "sorted vs \<Longrightarrow> find (\<lambda>v. m \<ge> v) (rev vs) = Some a \<Longrightarrow>
   a \<in> set vs \<and> a \<le> m \<and> (\<forall>v\<in>set vs. v \<le> m \<longrightarrow> v \<le> a)"
proof (induction vs rule: rev_induct)
  case Nil
  then show ?case by simp
next
  case (snoc x xs)
  then show ?case
    by (auto simp: sorted_append split: if_splits)
qed

lemma find_rev_none:
  "find (\<lambda>v. m \<ge> v) (rev vs) = None \<Longrightarrow> \<forall>v\<in>set vs. m < (v::int)"
  by (auto simp: find_None_iff)

lemma actualMultiplier_sorted:
  assumes "sorted vs" "vs \<noteq> []"
  shows "actualMultiplier m vs \<in> set vs"
    and "vs ! 0 \<le> m \<Longrightarrow> actualMultiplier m vs \<le> m"
    and "vs ! 0 \<le> m \<Longrightarrow> v \<in> set vs \<Longrightarrow> v \<le> m \<Longrightarrow> v \<le> actualMultiplier m vs"
    and "m < vs ! 0 \<Longrightarrow> actualMultiplier m vs = vs ! 0"
proof -
  have hd_min: "\<And>v. v \<in> set vs \<Longrightarrow> vs ! 0 \<le> v"
    using assms by (cases vs) auto
  have hd_in: "vs ! 0 \<in> set vs" using assms(2) by (cases vs) auto
  show "actualMultiplier m vs \<in> set vs"
  proof (cases "find (\<lambda>v. m \<ge> v) (rev vs)")
    case None
    from find_rev_none [OF None] hd_in have "m < vs ! 0" by blast
    with None hd_in show ?thesis by (simp add: actualMultiplier_def)
  next
    case (Some a)
    from find_rev_sorted [OF assms(1) Some] hd_min have "a \<in> set vs" "vs ! 0 \<le> a" by auto
    with Some show ?thesis by (simp add: actualMultiplier_def)
  qed
  show "vs ! 0 \<le> m \<Longrightarrow> actualMultiplier m vs \<le> m"
  proof (cases "find (\<lambda>v. m \<ge> v) (rev vs)")
    case None
    assume "vs ! 0 \<le> m"
    with find_rev_none [OF None] hd_in show ?thesis by force
  next
    case (Some a)
    from find_rev_sorted [OF assms(1) Some] hd_min have "a \<in> set vs" "vs ! 0 \<le> a" "a \<le> m" by auto
    with Some show ?thesis by (simp add: actualMultiplier_def)
  qed
  show "vs ! 0 \<le> m \<Longrightarrow> v \<in> set vs \<Longrightarrow> v \<le> m \<Longrightarrow> v \<le> actualMultiplier m vs"
  proof (cases "find (\<lambda>v. m \<ge> v) (rev vs)")
    case None
    assume "vs ! 0 \<le> m"
    with find_rev_none [OF None] hd_in show ?thesis by force
  next
    case (Some a)
    assume "v \<in> set vs" "v \<le> m"
    with find_rev_sorted [OF assms(1) Some] hd_min have "a \<in> set vs" "vs ! 0 \<le> a" "v \<le> a" by auto
    with Some show ?thesis by (simp add: actualMultiplier_def)
  qed
  show "m < vs ! 0 \<Longrightarrow> actualMultiplier m vs = vs ! 0"
  proof -
    assume lt: "m < vs ! 0"
    have "find (\<lambda>v. m \<ge> v) (rev vs) = None"
      using lt hd_min by (force simp: find_None_iff)
    with lt show ?thesis by (simp add: actualMultiplier_def)
  qed
qed

section \<open>Facts about the historical fetch\<close>

lemma timestamp_CCXT_bar: "timestamp (CCXT_bar c) = c_timestamp c"
  by (simp add: CCXT_bar_def)

lemma CCXT_history_success:
  assumes "CCXT_getHistoryKLineData loadMarkets markets fetchOHLCV symbol period from to = Inr bars"
  shows "\<exists>ohlcv. fetchOHLCV 0 (CCXT_convertTickerToSymbol symbol)
                  (CCXT_convertPeriodToTimeframe period) from 1000 = Inr ohlcv \<and>
           bars = map CCXT_bar
                    (filter (\<lambda>candle. c_timestamp candle \<ge> from \<and> c_timestamp candle \<le> to) ohlcv)"
  using assms
  by (auto simp: CCXT_getHistoryKLineData_def Let_def split: sum.splits if_splits)

lemma OKX_history_success:
  assumes "OKX_getHistoryKLineData parseInt parseFloat fetch symbol period from to = Inr bars"
  shows "\<exists>response result. fetch 0 (OKX_history_url symbol period from to) = Inr response \<and>
           resp_ok response \<and> resp_json response = Inr result \<and> code result = ''0'' \<and>
           bars = rev (map (OKX_bar parseInt parseFloat)
                    (case data result of None \<Rightarrow> [] | Some cs \<Rightarrow> cs))"
  using assms
  by (auto simp: OKX_getHistoryKLineData_def split: sum.splits if_splits)

lemma Default_history_success:
  assumes "Default_getHistoryKLineData fetch apiKey symbol period from to = Inr bars"
  shows "\<exists>response result. fetch 0 (Default_history_url apiKey symbol period from to) = Inr response \<and>
           resp_ok response \<and> resp_json response = Inr result \<and>
           bars = map Default_bar (case results result of None \<Rightarrow> [] | Some rs \<Rightarrow> rs)"
  using assms
  by (auto simp: Default_getHistoryKLineData_def split: sum.splits if_splits)

lemma sorted_wrt_rev_map:
  "sorted_wrt (\<lambda>x y. P (f y) (f x)) xs \<Longrightarrow> sorted_wrt P (rev (map f xs))"
  by (simp add: sorted_wrt_rev sorted_wrt_map rev_map [symmetric])

lemma Default_history_not_ok:
  assumes "valid_date (from div 1000 * 1000)" "valid_date (to div 1000 * 1000)"
    "fetch 0 (Default_history_url apiKey symbol period from to) = Inr r" "\<not> resp_ok r"
  shows "resp_text r = Inr body \<Longrightarrow>
           Default_getHistoryKLineData fetch apiKey symbol period from to
             = Inl (Thrown ''Error'' (''API request failed: '' @ showInt (resp_status r) @ '' ''
                 @ resp_statusText r))"
    and "resp_text r = Inl e \<Longrightarrow>
           Default_getHistoryKLineData fetch apiKey symbol period from to = Inl e"
  using assms by (simp_all add: Default_getHistoryKLineData_def)

lemma Default_history_malformed:
  assumes "valid_date (from div 1000 * 1000)" "valid_date (to div 1000 * 1000)"
    "fetch 0 (Default_history_url apiKey symbol period from to) = Inr r" "resp_ok r"
    "resp_json r = Inl e"
  shows "Default_getHistoryKLineData fetch apiKey symbol period from to = Inl e"
  using assms by (simp add: Default_getHistoryKLineData_def)

lemma Default_history_rejected:
  assumes "valid_date (from div 1000 * 1000)" "valid_date (to div 1000 * 1000)"
    "fetch 0 (Default_history_url apiKey symbol period from to) = Inl e"
  shows "Default_getHistoryKLineData fetch apiKey symbol period from to = Inl e"
  using assms by (simp add: Default_getHistoryKLineData_def)

lemma OKX_history_not_ok:
  assumes "valid_date (from div 1000 * 1000)" "valid_date (to div 1000 * 1000)"
    "fetch 0 (OKX_history_url symbol period from to) = Inr r" "\<not> resp_ok r"
    "resp_text r = Inr body"
  shows "OKX_getHistoryKLineData parseInt parseFloat fetch symbol period from to
             = Inl (Thrown ''Error'' (''API request failed: '' @ showInt (resp_status r) @ '' ''
                 @ resp_statusText r))"
  using assms by (simp add: OKX_getHistoryKLineData_def)

lemma OKX_history_malformed:
  assumes "valid_date (from div 1000 * 1000)" "valid_date (to div 1000 * 1000)"
    "fetch 0 (OKX_history_url symbol period from to) = Inr r" "resp_ok r" "resp_json r = Inl e"
  shows "OKX_getHistoryKLineData parseInt parseFloat fetch symbol period from to = Inl e"
  using assms by (simp add: OKX_getHistoryKLineData_def)

lemma history_invalid_range:
  assumes "\<not> (valid_date (from div 1000 * 1000) \<and> valid_date (to div 1000 * 1000))"
  shows "Default_getHistoryKLineData fetchD apiKey symbol period from to
           = Inl (Thrown ''RangeError'' ''Invalid time value'')"
    and "OKX_getHistoryKLineData parseInt parseFloat fetchO symbol period from to
           = Inl (Thrown ''RangeError'' ''Invalid time value'')"
  using assms
  by (simp_all only: Default_getHistoryKLineData_def OKX_getHistoryKLineData_def if_False)

lemma CCXT_history_rejected:
  assumes "valid_date from" "valid_date to"
    "CCXT_ensureMarketsLoaded loadMarkets markets = Inr loaded"
    "fetchOHLCV 0 (CCXT_convertTickerToSymbol symbol) (CCXT_convertPeriodToTimeframe period)
        from 1000 = Inl e"
  shows "CCXT_getHistoryKLineData loadMarkets markets fetchOHLCV symbol period from to = Inl e"
  using assms by (simp add: CCXT_getHistoryKLineData_def)

lemma CCXT_history_markets_failed:
  assumes "markets = None" "loadMarkets 0 = Inl e"
  shows "CCXT_getHistoryKLineData loadMarkets markets fetchOHLCV symbol period from to
        = Inl (Thrown ''Error'' (''Failed to load markets: '' @ error_text e))"
  using assms by (simp add: CCXT_getHistoryKLineData_def CCXT_ensureMarketsLoaded_def)

lemma Local_history_caught:
  "Local_history_try encodeURIComponent fetch baseUrl symbol period from to = Inl e \<Longrightarrow>
   Local_getHistoryKLineData encodeURIComponent fetch baseUrl symbol period from to = Inr []"
  by (simp add: Local_getHistoryKLineData_def)

lemma Local_history_failure_empty:
  assumes "encodeURIComponent (ticker symbol) = Inr encoded"
    "fetch 0 (Local_history_url baseUrl encoded (Local_convertPeriodToTimeframe period) from to)
        = Inr r"
    "\<not> resp_ok r \<or> resp_json r = Inl e"
  shows "Local_getHistoryKLineData encodeURIComponent fetch baseUrl symbol period from to = Inr []"
  using assms by (auto simp: Local_getHistoryKLineData_def Local_history_try_def)

lemma OKX_history_text_failed:
  assumes "valid_date (from div 1000 * 1000)" "valid_date (to div 1000 * 1000)"
    "fetch 0 (OKX_history_url symbol period from to) = Inr r" "\<not> resp_ok r"
    "resp_text r = Inl e"
  shows "OKX_getHistoryKLineData parseInt parseFloat fetch symbol period from to = Inl e"
  using assms by (simp add: OKX_getHistoryKLineData_def)

lemma OKX_history_api_error:
  assumes "valid_date (from div 1000 * 1000)" "valid_date (to div 1000 * 1000)"
    "fetch 0 (OKX_history_url symbol period from to) = Inr r" "resp_ok r"
    "resp_json r = Inr result" "code result \<noteq> ''0''"
  shows "OKX_getHistoryKLineData parseInt parseFloat fetch symbol period from to
           = Inl (Thrown ''Error'' (''API error: '' @ msg result))"
  using assms by (simp add: OKX_getHistoryKLineData_def)

lemma OKX_history_rejected:
  assumes "valid_date (from div 1000 * 1000)" "valid_date (to div 1000 * 1000)"
    "fetch 0 (OKX_history_url symbol period from to) = Inl e"
  shows "OKX_getHistoryKLineData parseInt parseFloat fetch symbol period from to = Inl e"
  using assms by (simp add: OKX_getHistoryKLineData_def)

lemma CCXT_history_invalid_range:
  assumes "CCXT_ensureMarketsLoaded loadMarkets markets = Inr loaded"
    "\<not> (valid_date from \<and> valid_date to)"
  shows "CCXT_getHistoryKLineData loadMarkets markets fetchOHLCV symbol period from to
           = Inl (Thrown ''RangeError'' ''Invalid time value'')"
  using assms by (auto simp: CCXT_getHistoryKLineData_def)

lemma Local_history_rejected:
  assumes "encodeURIComponent (ticker symbol) = Inr encoded"
    "fetch 0 (Local_history_url baseUrl encoded (Local_convertPeriodToTimeframe period) from to)
        = Inl e"
  shows "Local_getHistoryKLineData encodeURIComponent fetch baseUrl symbol period from to = Inr []"
  using assms by (simp add: Local_getHistoryKLineData_def Local_history_try_def)

text \<open>
  Every adapter looks at the outcome of its first request and at no other: two networks that
  answer request 0 alike give the same result, whatever they would answer to a second
  request.
\<close>

lemma Default_history_first_answer:
  assumes "fetch 0 = fetch2 0"
  shows "Default_getHistoryKLineData fetch apiKey symbol period from to
           = Default_getHistoryKLineData fetch2 apiKey symbol period from to"
  unfolding Default_getHistoryKLineData_def assms ..

lemma OKX_history_first_answer:
  assumes "fetch 0 = fetch2 0"
  shows "OKX_getHistoryKLineData parseInt parseFloat fetch symbol period from to
           = OKX_getHistoryKLineData parseInt parseFloat fetch2 symbol period from to"
  unfolding OKX_getHistoryKLineData_def assms ..

lemma CCXT_history_first_answer:
  assumes "loadMarkets 0 = loadMarkets2 0" "fetchOHLCV 0 = fetchOHLCV2 0"
  shows "CCXT_getHistoryKLineData loadMarkets markets fetchOHLCV symbol period from to
           = CCXT_getHistoryKLineData loadMarkets2 markets fetchOHLCV2 symbol period from to"
  unfolding CCXT_getHistoryKLineData_def CCXT_ensureMarketsLoaded_def assms ..

lemma Local_history_first_answer:
  assumes "fetch 0 = fetch2 0"
  shows "Local_getHistoryKLineData encodeURIComponent fetch baseUrl symbol period from to
           = Local_getHistoryKLineData encodeURIComponent fetch2 baseUrl symbol period from to"
  unfolding Local_getHistoryKLineData_def Local_history_try_def assms ..

section \<open>Facts about the live subscriptions\<close>

lemma Local_unsubscribe_noop:
  "Local_currentChannel st = Some c \<Longrightarrow> Local_channel symbol period \<noteq> c \<Longrightarrow>
   Local_unsubscribe st symbol period = st"
  by (auto simp: Local_unsubscribe_def split: option.splits)

lemma CCXT_unsubscribe_clears:
  "CCXT_currentCallback (CCXT_unsubscribe st symbol period) = None \<and>
   CCXT_lastTimestamp (CCXT_unsubscribe st symbol period) = None \<and>
   CCXT_pollingInterval (CCXT_unsubscribe st symbol period) = None \<and>
   CCXT_ws (CCXT_unsubscribe st symbol period) = None"
  by (auto simp: CCXT_unsubscribe_def clearInterval_def Let_def split: option.splits)

lemma CCXT_unsubscribe_timer:
  "CCXT_pollingInterval st = Some i \<Longrightarrow> i \<notin> fst ` set (CCXT_timers (CCXT_unsubscribe st symbol period))"
  by (auto simp: CCXT_unsubscribe_def clearInterval_def Let_def split: option.splits)

lemma Local_resub:
  "Local_ws st = Some w \<Longrightarrow> ls_readyState (Local_sockets st ! w) = OPEN \<Longrightarrow>
   Local_currentChannel st = Some (Local_channel symbol period) \<Longrightarrow>
   Local_subscribe st symbol period callback created = st\<lparr>Local_callback := Some callback\<rparr>"
  by (simp add: Local_subscribe_def Local_channel_def Let_def)

lemma OKX_resub:
  assumes "OKX_ws st = Some v" "os_readyState (OKX_sockets st ! v) = OPEN"
    "OKX_prevSymbolMarket st = market symbol" "OKX_currentChannel st = Some c" "c \<noteq> []"
    "v < length (OKX_sockets st)"
  shows "OKX_ws (OKX_subscribe st symbol period callback) = Some v"
    and "length (OKX_sockets (OKX_subscribe st symbol period callback)) = length (OKX_sockets st)"
    and "map os_pendingCallback (OKX_sockets (OKX_subscribe st symbol period callback))
           = map os_pendingCallback (OKX_sockets st)"
    and "map os_readyState (OKX_sockets (OKX_subscribe st symbol period callback))
           = map os_readyState (OKX_sockets st)"
    and "OKX_currentChannel (OKX_subscribe st symbol period callback)
           = Some (''candles'' @ OKX_convertPeriodToBar period)"
    and "length (os_sent (OKX_sockets (OKX_subscribe st symbol period callback) ! v))
           = Suc (length (os_sent (OKX_sockets st ! v)))"
  using assms
  by (simp_all add: OKX_subscribe_def Let_def map_update list_update_same_conv)

text \<open>
  The timeout that \<^verbatim>\<open>LocalDataFeeds.subscribe\<close> sets closes nothing: it calls
  \<^verbatim>\<open>unsubscribe\<close> only when the current channel differs from the channel of its call, and
  \<^verbatim>\<open>unsubscribe\<close>, called with the symbol and period of that call, acts only when the two
  are equal.
\<close>

lemma Local_timeout_fired_closes_nothing:
  assumes "k < length (Local_timeouts st)"
    "lt_channel (Local_timeouts st ! k)
       = Local_channel (lt_symbol (Local_timeouts st ! k)) (lt_period (Local_timeouts st ! k))"
  shows "Local_sockets (Local_timeout_fired k st) = Local_sockets st \<and>
         Local_ws (Local_timeout_fired k st) = Local_ws st \<and>
         Local_currentChannel (Local_timeout_fired k st) = Local_currentChannel st \<and>
         Local_callback (Local_timeout_fired k st) = Local_callback st"
  using assms
  by (auto simp: Local_timeout_fired_def Local_unsubscribe_def Let_def split: option.splits)

text \<open>
  A call of \<^verbatim>\<open>LocalDataFeeds.subscribe\<close> for a channel other than the current one leaves
  every socket that exists in the state it is in.
\<close>

lemma Local_subscribe_other_channel_closes_nothing:
  assumes "Local_currentChannel st \<noteq> Some (Local_channel symbol period)"
  shows "take (length (Local_sockets st)) (Local_sockets (Local_subscribe st symbol period cb created))
           = Local_sockets st"
  using assms
  by (auto simp: Local_subscribe_def Local_unsubscribe_def Local_channel_def Let_def
      split: option.splits)

text \<open>
  The handler of a message calls the callback only when the current channel is the channel
  of the socket the message came on.
\<close>

lemma Local_onmessage_current_channel_only:
  assumes "Local_calls (Local_onmessage w payload st) \<noteq> Local_calls st"
  shows "Local_currentChannel st = Some (ls_channel (Local_sockets st ! w))"
  using assms
  by (auto simp: Local_onmessage_def split: if_splits option.splits)

text \<open>
  The polling ticks: as long as no candle that is taken has the timestamp zero, the
  timestamps passed to the callback ascend strictly.
\<close>

lemma poll_inv_step:
  assumes "poll_inv st" "nonzero_outcome outcome"
  shows "poll_inv (CCXT_fetchLatest cb st outcome)"
proof (cases outcome)
  case (Inl e)
  then show ?thesis using assms(1)
    by (simp add: CCXT_fetchLatest_def CCXT_fetchLatest_resume_def Let_def)
next
  case (Inr cs)
  show ?thesis
  proof (cases "cs = []")
    case True
    with Inr show ?thesis using assms(1)
      by (simp add: CCXT_fetchLatest_def CCXT_fetchLatest_resume_def Let_def)
  next
    case False
    then have l: "cs ! (length cs - 1) = last cs" by (simp add: last_conv_nth)
    from False Inr assms(2) have nz: "c_timestamp (last cs) \<noteq> 0"
      by (simp add: nonzero_outcome_def)
    show ?thesis
    proof (cases "CCXT_lastTimestamp st")
      case None
      with assms(1) have "CCXT_calls st = []" by (simp add: poll_inv_def)
      with None Inr False l nz assms(1) show ?thesis
        by (simp add: CCXT_fetchLatest_def CCXT_fetchLatest_resume_def Let_def poll_inv_def
            timestamp_CCXT_bar)
    next
      case (Some lt)
      with assms(1) have a: "lt \<noteq> 0"
        and b: "list_all (\<lambda>c. timestamp (snd c) \<le> lt) (CCXT_calls st)"
        and s: "sorted_wrt (<) (map (\<lambda>c. timestamp (snd c)) (CCXT_calls st))"
        by (simp_all add: poll_inv_def)
      show ?thesis
      proof (cases "c_timestamp (last cs) > lt")
        case True
        from b True have b': "list_all (\<lambda>c. timestamp (snd c) \<le> c_timestamp (last cs)) (CCXT_calls st)"
          by (auto simp: list_all_iff)
        from b True have lt': "\<forall>c\<in>set (CCXT_calls st). timestamp (snd c) < c_timestamp (last cs)"
          by (auto simp: list_all_iff)
        from Some Inr False l nz a True s b b' lt' show ?thesis
          by (auto simp: CCXT_fetchLatest_def CCXT_fetchLatest_resume_def Let_def poll_inv_def
              timestamp_CCXT_bar sorted_wrt_append)
      next
        case False
        with Some Inr \<open>cs \<noteq> []\<close> l a assms(1) show ?thesis
          by (simp add: CCXT_fetchLatest_def CCXT_fetchLatest_resume_def Let_def poll_inv_def)
      qed
    qed
  qed
qed

lemma poll_inv_run:
  "poll_inv st \<Longrightarrow> list_all nonzero_outcome outcomes \<Longrightarrow> poll_inv (CCXT_poll cb st outcomes)"
  unfolding CCXT_poll_def
  by (induction outcomes arbitrary: st) (simp_all add: poll_inv_step)

lemma CCXT_poll_strictly_increasing:
  assumes "CCXT_calls st = []" "CCXT_lastTimestamp st = None" "list_all nonzero_outcome outcomes"
  shows "sorted_wrt (<) (map (\<lambda>c. timestamp (snd c)) (CCXT_calls (CCXT_poll cb st outcomes)))"
proof -
  from assms(1,2) have "poll_inv st" by (simp add: poll_inv_def)
  from poll_inv_run [OF this assms(3)] show ?thesis by (simp add: poll_inv_def)
qed

text \<open>
  The reuse branch of \<^verbatim>\<open>DefaultDatafeed.subscribe\<close>: the socket is kept and one subscribe
  frame is sent on it; what the handlers of the sockets captured, the callback among it,
  stays as it was.
\<close>

lemma Default_resub:
  assumes "Default_ws st = Some v" "ds_readyState (Default_sockets st ! v) = OPEN"
    "Default_prevSymbolMarket st = market symbol" "v < length (Default_sockets st)"
  shows "Default_ws (Default_subscribe st symbol period callback) = Some v"
    and "length (Default_sockets (Default_subscribe st symbol period callback))
           = length (Default_sockets st)"
    and "map ds_callback (Default_sockets (Default_subscribe st symbol period callback))
           = map ds_callback (Default_sockets st)"
    and "map ds_pendingSubscription (Default_sockets (Default_subscribe st symbol period callback))
           = map ds_pendingSubscription (Default_sockets st)"
    and "map ds_readyState (Default_sockets (Default_subscribe st symbol period callback))
           = map ds_readyState (Default_sockets st)"
    and "ds_sent (Default_sockets (Default_subscribe st symbol period callback) ! v)
           = ds_sent (Default_sockets st ! v)
               @ [Frame ''subscribe'' (''XA.'' @ Default_convertTickerFormat (ticker symbol))]"
    and "Default_calls (Default_subscribe st symbol period callback) = Default_calls st"
  using assms
  by (simp_all add: Default_subscribe_def Let_def map_update list_update_same_conv)

text \<open>
  The handler of a message of \<^verbatim>\<open>OKXDataFeeds\<close> calls no callback but the one its socket
  captured.
\<close>

lemma OKX_deliver_callback:
  "fst ` set (OKX_deliver parseInt parseFloat cb candles) \<subseteq> {cb}"
  by (induction candles) (auto split: jsnum.splits)

lemma OKX_onmessage_captured_callback:
  "fst ` set (OKX_calls (OKX_onmessage parseInt parseFloat w payload st))
     \<subseteq> fst ` set (OKX_calls st) \<union> {os_pendingCallback (OKX_sockets st ! w)}"
proof (cases "OKX_calls (OKX_onmessage parseInt parseFloat w payload st) = OKX_calls st")
  case True
  then show ?thesis by auto
next
  case False
  then obtain candles where
    "OKX_calls (OKX_onmessage parseInt parseFloat w payload st)
       = OKX_calls st @ OKX_deliver parseInt parseFloat
           (os_pendingCallback (OKX_sockets st ! w)) candles"
    by (auto simp: OKX_onmessage_def split: option.splits if_splits)
  with OKX_deliver_callback [of parseInt parseFloat "os_pendingCallback (OKX_sockets st ! w)"
      candles]
  show ?thesis by auto
qed

section \<open>Claims\<close>

text \<open>
  Claim C1 asks for at most one live connection per adapter once the pending events have
  settled, whatever the sequence of \<^verbatim>\<open>subscribe\<close> calls.  \<^verbatim>\<open>LocalDataFeeds\<close> does not keep
  to it.  Subscribe to \<^verbatim>\<open>BTC-USDT\<close>, let the socket open, subscribe to \<^verbatim>\<open>ETH-USDT\<close>, let the
  second socket open: \<^verbatim>\<open>subscribe\<close> calls \<^verbatim>\<open>unsubscribe\<close> with the new symbol, whose channel
  is not the current one, so the first socket is never closed.  The state is settled, both
  sockets are open, and the adapter holds the second one only.
\<close>

theorem Local_two_live_connections:
  "Local_settled (Local_run Local_init
      [Subscribe BTC min1 1 True, Opened 0, Subscribe ETH min1 2 True, Opened 1]) \<and>
   Local_live (Local_run Local_init
      [Subscribe BTC min1 1 True, Opened 0, Subscribe ETH min1 2 True, Opened 1]) = [0, 1] \<and>
   map ls_channel (Local_sockets (Local_run Local_init
      [Subscribe BTC min1 1 True, Opened 0, Subscribe ETH min1 2 True, Opened 1]))
     = [''BTC-USDT_1m'', ''ETH-USDT_1m''] \<and>
   map ls_readyState (Local_sockets (Local_run Local_init
      [Subscribe BTC min1 1 True, Opened 0, Subscribe ETH min1 2 True, Opened 1]))
     = [OPEN, OPEN] \<and>
   Local_ws (Local_run Local_init
      [Subscribe BTC min1 1 True, Opened 0, Subscribe ETH min1 2 True, Opened 1]) = Some 1 \<and>
   Local_currentChannel (Local_run Local_init
      [Subscribe BTC min1 1 True, Opened 0, Subscribe ETH min1 2 True, Opened 1])
     = Some ''ETH-USDT_1m''"
  by code_simp

text \<open>
  The scenario that claim C1 singles out does come out as the claim says in
  \<^verbatim>\<open>LocalDataFeeds\<close>: when the second \<^verbatim>\<open>subscribe\<close> comes before the first socket has
  opened, the first socket closes itself as it opens, the timeout does nothing, and in the
  end one socket is live, it is the second, and a bar that came on it is the only one passed
  to the callback.
\<close>

lemma Local_rapid_switch:
  "Local_settled (Local_run Local_init
      [Subscribe BTC min1 1 True, Subscribe ETH min1 2 True, Opened 0, Opened 1, TimedOut 0,
       Closed 0, Message 0 (Some (CCXT_bar (candle_at 5))),
       Message 1 (Some (CCXT_bar (candle_at 6)))]) \<and>
   Local_live (Local_run Local_init
      [Subscribe BTC min1 1 True, Subscribe ETH min1 2 True, Opened 0, Opened 1, TimedOut 0,
       Closed 0, Message 0 (Some (CCXT_bar (candle_at 5))),
       Message 1 (Some (CCXT_bar (candle_at 6)))]) = [1] \<and>
   Local_currentChannel (Local_run Local_init
      [Subscribe BTC min1 1 True, Subscribe ETH min1 2 True, Opened 0, Opened 1, TimedOut 0,
       Closed 0, Message 0 (Some (CCXT_bar (candle_at 5))),
       Message 1 (Some (CCXT_bar (candle_at 6)))]) = Some ''ETH-USDT_1m'' \<and>
   map (\<lambda>c. (fst c, fst (snd c))) (Local_calls (Local_run Local_init
      [Subscribe BTC min1 1 True, Subscribe ETH min1 2 True, Opened 0, Opened 1, TimedOut 0,
       Closed 0, Message 0 (Some (CCXT_bar (candle_at 5))),
       Message 1 (Some (CCXT_bar (candle_at 6)))])) = [(2, 1)]"
  by code_simp

text \<open>
  Claim C2, as the code has it.  For a period whose unit is in the table of
  \<^verbatim>\<open>OKXDataFeeds._convertPeriodToBar\<close>, the multiplier sent upstream is a value of the table.
  When the requested multiplier is at least the smallest value of the table, the chosen one
  does not exceed it and is the largest value of the table that does not; when the request
  is below the smallest value, the smallest value is used.  The bar string is the chosen
  multiplier followed by the letter of the unit.
  \<^verbatim>\<open>CCXTDataFeeds._convertPeriodToTimeframe\<close> holds no table and does not round: the
  timeframe is the requested multiplier itself followed by the letter of the unit, and what
  the exchange supports is left to the CCXT library.
\<close>

theorem OKX_interval_rounds_down:
  assumes "map_of supportedPeriods (timespan p) = Some vs"
  shows "supportedValues (timespan p) = vs \<and>
         actualMultiplier (multiplier p) vs \<in> set vs \<and>
         (\<forall>v\<in>set vs. vs ! 0 \<le> v) \<and>
         (vs ! 0 \<le> multiplier p \<longrightarrow>
            actualMultiplier (multiplier p) vs \<le> multiplier p \<and>
            (\<forall>v\<in>set vs. v \<le> multiplier p \<longrightarrow> v \<le> actualMultiplier (multiplier p) vs)) \<and>
         (multiplier p < vs ! 0 \<longrightarrow> actualMultiplier (multiplier p) vs = vs ! 0) \<and>
         (\<forall>u. map_of [(''minute'', ''m''), (''hour'', ''H''), (''day'', ''D''),
                       (''week'', ''W''), (''month'', ''M'')] (timespan p) = Some u \<longrightarrow>
              OKX_convertPeriodToBar p = showInt (actualMultiplier (multiplier p) vs) @ u) \<and>
         (\<forall>u. map_of [(''minute'', ''m''), (''hour'', ''h''), (''day'', ''d''),
                       (''week'', ''w''), (''month'', ''M'')] (timespan p) = Some u \<longrightarrow>
              CCXT_convertPeriodToTimeframe p = showInt (multiplier p) @ u)"
proof -
  from supportedPeriods_cases [OF assms] have srt: "sorted vs" and ne: "vs \<noteq> []"
    by auto
  have sv: "supportedValues (timespan p) = vs"
    using assms by (simp add: supportedValues_def)
  have least: "\<forall>v\<in>set vs. vs ! 0 \<le> v"
    using srt ne by (cases vs) auto
  have okx: "\<forall>u. map_of [(''minute'', ''m''), (''hour'', ''H''), (''day'', ''D''),
                       (''week'', ''W''), (''month'', ''M'')] (timespan p) = Some u \<longrightarrow>
              OKX_convertPeriodToBar p = showInt (actualMultiplier (multiplier p) vs) @ u"
    using sv by (auto simp: OKX_convertPeriodToBar_def Let_def split: if_splits)
  have ccxt: "\<forall>u. map_of [(''minute'', ''m''), (''hour'', ''h''), (''day'', ''d''),
                       (''week'', ''w''), (''month'', ''M'')] (timespan p) = Some u \<longrightarrow>
              CCXT_convertPeriodToTimeframe p = showInt (multiplier p) @ u"
    by (auto simp: CCXT_convertPeriodToTimeframe_def split: if_splits)
  from sv least okx ccxt actualMultiplier_sorted [OF srt ne, of "multiplier p"]
  show ?thesis by blast
qed

theorem OKX_interval_rounds_down_witness:
  "map_of supportedPeriods (timespan \<lparr>multiplier = 7, timespan = ''minute''\<rparr>)
     = Some [1, 3, 5, 15, 30] \<and>
   [1, 3, 5, 15, 30] ! 0 \<le> multiplier \<lparr>multiplier = 7, timespan = ''minute''\<rparr> \<and>
   actualMultiplier 7 [1, 3, 5, 15, 30] = 5 \<and>
   actualMultiplier (multiplier \<lparr>multiplier = 7, timespan = ''minute''\<rparr>) [1, 3, 5, 15, 30]
     \<le> multiplier \<lparr>multiplier = 7, timespan = ''minute''\<rparr> \<and>
   OKX_convertPeriodToBar \<lparr>multiplier = 7, timespan = ''minute''\<rparr> = ''5m'' \<and>
   map_of supportedPeriods (timespan \<lparr>multiplier = 0, timespan = ''hour''\<rparr>)
     = Some [1, 2, 4, 6, 12] \<and>
   multiplier \<lparr>multiplier = 0, timespan = ''hour''\<rparr> < [1, 2, 4, 6, 12] ! 0 \<and>
   actualMultiplier (multiplier \<lparr>multiplier = 0, timespan = ''hour''\<rparr>) [1, 2, 4, 6, 12]
     = [1, 2, 4, 6, 12] ! 0 \<and>
   OKX_convertPeriodToBar \<lparr>multiplier = 0, timespan = ''hour''\<rparr> = ''1H''"
proof -
  let ?p = "\<lparr>multiplier = 7, timespan = ''minute''\<rparr>"
  let ?q = "\<lparr>multiplier = 0, timespan = ''hour''\<rparr>"
  have h1: "map_of supportedPeriods (timespan ?p) = Some [1, 3, 5, 15, 30]"
    by (simp add: supportedPeriods_def)
  have g1: "[1, 3, 5, 15, 30] ! 0 \<le> multiplier ?p" by simp
  have h2: "map_of supportedPeriods (timespan ?q) = Some [1, 2, 4, 6, 12]"
    by (simp add: supportedPeriods_def)
  have g2: "multiplier ?q < [1, 2, 4, 6, 12] ! 0" by simp
  have e1: "actualMultiplier 7 [1, 3, 5, 15, 30] = 5" by (simp add: actualMultiplier_def)
  have e2: "OKX_convertPeriodToBar ?p = ''5m''" by code_simp
  have e3: "OKX_convertPeriodToBar ?q = ''1H''" by code_simp
  from OKX_interval_rounds_down [OF h1] g1
  have c1: "actualMultiplier (multiplier ?p) [1, 3, 5, 15, 30] \<le> multiplier ?p" by blast
  from OKX_interval_rounds_down [OF h2] g2
  have c2: "actualMultiplier (multiplier ?q) [1, 2, 4, 6, 12] = [1, 2, 4, 6, 12] ! 0" by blast
  from h1 g1 e1 c1 e2 h2 g2 c2 e3 show ?thesis by blast
qed

text \<open>
  The claim as it was stated fails for \<^verbatim>\<open>CCXTDataFeeds._convertPeriodToTimeframe\<close>.  Seven
  minutes are sent as \<^verbatim>\<open>7m\<close>, where the table of supported values has no seven and
  \<^verbatim>\<open>OKXDataFeeds\<close> rounds down to five; zero hours are sent as \<^verbatim>\<open>0h\<close>, not as the smallest
  supported value, one hour, that \<^verbatim>\<open>OKXDataFeeds\<close> uses.
\<close>

theorem CCXT_interval_counterexample:
  "CCXT_convertPeriodToTimeframe \<lparr>multiplier = 7, timespan = ''minute''\<rparr> = ''7m'' \<and>
   7 \<notin> set (supportedValues ''minute'') \<and>
   OKX_convertPeriodToBar \<lparr>multiplier = 7, timespan = ''minute''\<rparr> = ''5m'' \<and>
   CCXT_convertPeriodToTimeframe \<lparr>multiplier = 0, timespan = ''hour''\<rparr> = ''0h'' \<and>
   0 \<notin> set (supportedValues ''hour'') \<and>
   supportedValues ''hour'' ! 0 = 1 \<and>
   OKX_convertPeriodToBar \<lparr>multiplier = 0, timespan = ''hour''\<rparr> = ''1H''"
  by code_simp

text \<open>
  Claim C3, as the code has it.  In \<^verbatim>\<open>LocalDataFeeds\<close>, \<^verbatim>\<open>unsubscribe\<close> with a symbol and a
  period whose channel differs from the current channel changes nothing: the socket, the
  channel and the callback stay.  \<^verbatim>\<open>CCXTDataFeeds\<close> keeps no channel: its \<^verbatim>\<open>unsubscribe\<close>
  does not read the symbol or the period and always clears the callback and the last
  timestamp and stops the polling timer.
\<close>

theorem unsubscribe_other_channel:
  "(Local_currentChannel st = Some c \<and> Local_channel symbol period \<noteq> c \<longrightarrow>
      Local_unsubscribe st symbol period = st) \<and>
   CCXT_currentCallback (CCXT_unsubscribe cst symbol period) = None \<and>
   CCXT_lastTimestamp (CCXT_unsubscribe cst symbol period) = None \<and>
   CCXT_pollingInterval (CCXT_unsubscribe cst symbol period) = None \<and>
   (\<forall>i. CCXT_pollingInterval cst = Some i \<longrightarrow>
        i \<notin> fst ` set (CCXT_timers (CCXT_unsubscribe cst symbol period)))"
  using Local_unsubscribe_noop [of st c symbol period]
    CCXT_unsubscribe_clears [of cst symbol period]
    CCXT_unsubscribe_timer [of cst _ symbol period]
  by blast

theorem unsubscribe_other_channel_witness:
  "Local_currentChannel (Local_run Local_init [Subscribe BTC min1 1 True, Opened 0])
     = Some ''BTC-USDT_1m'' \<and>
   Local_channel ETH min1 \<noteq> ''BTC-USDT_1m'' \<and>
   Local_unsubscribe (Local_run Local_init [Subscribe BTC min1 1 True, Opened 0]) ETH min1
     = Local_run Local_init [Subscribe BTC min1 1 True, Opened 0] \<and>
   Local_live (Local_unsubscribe (Local_run Local_init [Subscribe BTC min1 1 True, Opened 0])
      ETH min1) = [0] \<and>
   Local_callback (Local_unsubscribe (Local_run Local_init [Subscribe BTC min1 1 True, Opened 0])
      ETH min1) = Some 1"
proof -
  let ?st = "Local_run Local_init [Subscribe BTC min1 1 True, Opened 0]"
  have h1: "Local_currentChannel ?st = Some ''BTC-USDT_1m''" by code_simp
  have h2: "Local_channel ETH min1 \<noteq> ''BTC-USDT_1m''" by code_simp
  have l: "Local_live ?st = [0]" by code_simp
  have c: "Local_callback ?st = Some 1" by code_simp
  from unsubscribe_other_channel [of ?st "''BTC-USDT_1m''" ETH min1] h1 h2
  have e: "Local_unsubscribe ?st ETH min1 = ?st" by blast
  from h1 h2 e l c show ?thesis by simp
qed

text \<open>
  The claim as it was stated fails for \<^verbatim>\<open>CCXTDataFeeds\<close>: after a polling subscription to
  \<^verbatim>\<open>BTC-USDT\<close> at one minute, \<^verbatim>\<open>unsubscribe\<close> for \<^verbatim>\<open>ETH-USDT\<close> at fifteen minutes, another
  symbol and another timeframe, clears the callback and stops the timer.
\<close>

theorem CCXT_unsubscribe_counterexample:
  "CCXT_convertTickerToSymbol ETH \<noteq> CCXT_convertTickerToSymbol BTC \<and>
   CCXT_convertPeriodToTimeframe min15 \<noteq> CCXT_convertPeriodToTimeframe min1 \<and>
   CCXT_currentCallback (CCXT_subscribe False CCXT_init BTC min1 1) = Some 1 \<and>
   CCXT_pollingInterval (CCXT_subscribe False CCXT_init BTC min1 1) = Some 1 \<and>
   map fst (CCXT_timers (CCXT_subscribe False CCXT_init BTC min1 1)) = [1] \<and>
   CCXT_currentCallback (CCXT_unsubscribe (CCXT_subscribe False CCXT_init BTC min1 1) ETH min15)
     = None \<and>
   CCXT_pollingInterval (CCXT_unsubscribe (CCXT_subscribe False CCXT_init BTC min1 1) ETH min15)
     = None \<and>
   CCXT_timers (CCXT_unsubscribe (CCXT_subscribe False CCXT_init BTC min1 1) ETH min15) = []"
  by code_simp

text \<open>
  Claim C4 asks that the polling never passes two bars with timestamps that do not ascend
  strictly.  \<^verbatim>\<open>CCXTDataFeeds._subscribePolling\<close> tests \<^verbatim>\<open>!this._lastTimestamp\<close>, which holds
  not only when nothing was delivered yet but also when the timestamp delivered last is
  zero.  Two ticks that each bring a candle with timestamp zero are both passed to the
  callback.  (Lemma \<open>CCXT_poll_strictly_increasing\<close> above: with timestamps other than zero
  the claim holds.)
\<close>

theorem CCXT_poll_repeats_timestamp_zero:
  "map (\<lambda>c. timestamp (snd c))
     (CCXT_calls (CCXT_poll 1 (CCXT_subscribe False CCXT_init BTC min1 1)
        [Inr [candle_at 0], Inr [candle_at 0]])) = [0, 0] \<and>
   CCXT_currentCallback (CCXT_subscribe False CCXT_init BTC min1 1) = Some 1 \<and>
   CCXT_lastTimestamp (CCXT_subscribe False CCXT_init BTC min1 1) = None"
  by (simp add: CCXT_poll_def CCXT_fetchLatest_def CCXT_fetchLatest_resume_def CCXT_subscribe_def
      CCXT_subscribePolling_def CCXT_unsubscribe_def CCXT_init_def candle_at_def CCXT_bar_def
      clearInterval_def Let_def)

text \<open>
  Claim C5, as the code has it.  A successful historical fetch returns what the provider
  sent, in the provider's order or its reverse; no adapter sorts, and only the CCXT adapter
  clips.
  \<^item> \<^verbatim>\<open>CCXTDataFeeds\<close>: every returned bar has its timestamp within \<open>[from, to]\<close>; the
    timestamps are those of the candles the library returned, filtered and in the same
    order, so they ascend when the library's ascend.
  \<^item> \<^verbatim>\<open>OKXDataFeeds\<close>: the bars are the candles of the response in reverse order, none
    dropped; when the response is newest-first the result is oldest-first.
  \<^item> \<^verbatim>\<open>DefaultDatafeed\<close>: the bars are the aggregates of the response in the same order,
    none dropped.
\<close>

theorem history_range_and_order:
  "(CCXT_getHistoryKLineData loadMarkets markets fetchOHLCV symbol period from to = Inr bars \<longrightarrow>
      (\<forall>b\<in>set bars. from \<le> timestamp b \<and> timestamp b \<le> to) \<and>
      (\<exists>ohlcv. fetchOHLCV 0 (CCXT_convertTickerToSymbol symbol)
                 (CCXT_convertPeriodToTimeframe period) from 1000 = Inr ohlcv \<and>
          map timestamp bars = filter (\<lambda>t. from \<le> t \<and> t \<le> to) (map c_timestamp ohlcv) \<and>
          (sorted (map c_timestamp ohlcv) \<longrightarrow> sorted (map timestamp bars)))) \<and>
   (OKX_getHistoryKLineData parseInt parseFloat fetchO symbol period from to = Inr obars \<longrightarrow>
      (\<exists>response result.
          fetchO 0 (OKX_history_url symbol period from to) = Inr response \<and>
          resp_json response = Inr result \<and>
          obars = rev (map (OKX_bar parseInt parseFloat)
                    (case data result of None \<Rightarrow> [] | Some cs \<Rightarrow> cs)) \<and>
          (sorted_wrt (\<lambda>x y. js_le (parseInt (at_index y 0)) (parseInt (at_index x 0)))
              (case data result of None \<Rightarrow> [] | Some cs \<Rightarrow> cs) \<longrightarrow>
           sorted_wrt (\<lambda>a b. js_le (timestamp a) (timestamp b)) obars))) \<and>
   (Default_getHistoryKLineData fetchD apiKey symbol period from to = Inr dbars \<longrightarrow>
      (\<exists>response result.
          fetchD 0 (Default_history_url apiKey symbol period from to) = Inr response \<and>
          resp_json response = Inr result \<and>
          dbars = map Default_bar (case results result of None \<Rightarrow> [] | Some rs \<Rightarrow> rs)))"
proof (intro conjI impI)
  assume a: "CCXT_getHistoryKLineData loadMarkets markets fetchOHLCV symbol period from to = Inr bars"
  from CCXT_history_success [OF a] obtain ohlcv where
    f: "fetchOHLCV 0 (CCXT_convertTickerToSymbol symbol) (CCXT_convertPeriodToTimeframe period)
          from 1000 = Inr ohlcv"
    and b: "bars = map CCXT_bar
          (filter (\<lambda>candle. c_timestamp candle \<ge> from \<and> c_timestamp candle \<le> to) ohlcv)"
    by blast
  show "\<forall>b\<in>set bars. from \<le> timestamp b \<and> timestamp b \<le> to"
    using b by (auto simp: timestamp_CCXT_bar)
  have m: "map timestamp bars = filter (\<lambda>t. from \<le> t \<and> t \<le> to) (map c_timestamp ohlcv)"
    using b by (simp add: filter_map comp_def timestamp_CCXT_bar)
  have "sorted (map c_timestamp ohlcv) \<longrightarrow> sorted (map timestamp bars)"
    unfolding m by (simp add: sorted_wrt_filter)
  with f m show "\<exists>ohlcv. fetchOHLCV 0 (CCXT_convertTickerToSymbol symbol)
                 (CCXT_convertPeriodToTimeframe period) from 1000 = Inr ohlcv \<and>
          map timestamp bars = filter (\<lambda>t. from \<le> t \<and> t \<le> to) (map c_timestamp ohlcv) \<and>
          (sorted (map c_timestamp ohlcv) \<longrightarrow> sorted (map timestamp bars))"
    by blast
next
  assume a: "OKX_getHistoryKLineData parseInt parseFloat fetchO symbol period from to = Inr obars"
  from OKX_history_success [OF a] obtain response result where
    f: "fetchO 0 (OKX_history_url symbol period from to) = Inr response"
      "resp_json response = Inr result"
    and b: "obars = rev (map (OKX_bar parseInt parseFloat)
                    (case data result of None \<Rightarrow> [] | Some cs \<Rightarrow> cs))"
    by blast
  have "sorted_wrt (\<lambda>x y. js_le (parseInt (at_index y 0)) (parseInt (at_index x 0)))
              (case data result of None \<Rightarrow> [] | Some cs \<Rightarrow> cs) \<longrightarrow>
           sorted_wrt (\<lambda>a b. js_le (timestamp a) (timestamp b)) obars"
    unfolding b by (auto intro!: sorted_wrt_rev_map simp: OKX_bar_def)
  with f b show "\<exists>response result.
          fetchO 0 (OKX_history_url symbol period from to) = Inr response \<and>
          resp_json response = Inr result \<and>
          obars = rev (map (OKX_bar parseInt parseFloat)
                    (case data result of None \<Rightarrow> [] | Some cs \<Rightarrow> cs)) \<and>
          (sorted_wrt (\<lambda>x y. js_le (parseInt (at_index y 0)) (parseInt (at_index x 0)))
              (case data result of None \<Rightarrow> [] | Some cs \<Rightarrow> cs) \<longrightarrow>
           sorted_wrt (\<lambda>a b. js_le (timestamp a) (timestamp b)) obars)"
    by blast
next
  assume a: "Default_getHistoryKLineData fetchD apiKey symbol period from to = Inr dbars"
  from Default_history_success [OF a]
  show "\<exists>response result.
          fetchD 0 (Default_history_url apiKey symbol period from to) = Inr response \<and>
          resp_json response = Inr result \<and>
          dbars = map Default_bar (case results result of None \<Rightarrow> [] | Some rs \<Rightarrow> rs)"
    by blast
qed

theorem history_range_and_order_witness:
  "CCXT_getHistoryKLineData (loadMarkets_always ()) None
       (fetchOHLCV_always [candle_at 1000, candle_at 2000, candle_at 5000]) BTC min15 1500 3000
     = Inr [CCXT_bar (candle_at 2000)] \<and>
   1500 \<le> timestamp (CCXT_bar (candle_at 2000)) \<and>
   timestamp (CCXT_bar (candle_at 2000)) \<le> 3000 \<and>
   OKX_getHistoryKLineData example_parseInt example_parseFloat (fetch_always (ok_response okx_newest_first))
       BTC min15 1500 3000
     = Inr [OKX_bar example_parseInt example_parseFloat [''1000'', ''1'', ''2'', ''1'', ''2'', ''10''],
            OKX_bar example_parseInt example_parseFloat [''2000'', ''1'', ''2'', ''1'', ''2'', ''10'']] \<and>
   (\<exists>response result.
       fetch_always (ok_response okx_newest_first) 0 (OKX_history_url BTC min15 1500 3000)
         = Inr response \<and>
       resp_json response = Inr result \<and>
       [OKX_bar example_parseInt example_parseFloat [''1000'', ''1'', ''2'', ''1'', ''2'', ''10''],
        OKX_bar example_parseInt example_parseFloat [''2000'', ''1'', ''2'', ''1'', ''2'', ''10'']]
         = rev (map (OKX_bar example_parseInt example_parseFloat)
             (case data result of None \<Rightarrow> [] | Some cs \<Rightarrow> cs))) \<and>
   Default_getHistoryKLineData
       (fetch_always (ok_response \<lparr>results = Some [aggregate_at 11000, aggregate_at 12000]\<rparr>))
       ''key'' BTC min15 10000 20000
     = Inr [Default_bar (aggregate_at 11000), Default_bar (aggregate_at 12000)] \<and>
   (\<exists>response result.
       fetch_always (ok_response \<lparr>results = Some [aggregate_at 11000, aggregate_at 12000]\<rparr>) 0
         (Default_history_url ''key'' BTC min15 10000 20000) = Inr response \<and>
       resp_json response = Inr result \<and>
       [Default_bar (aggregate_at 11000), Default_bar (aggregate_at 12000)]
         = map Default_bar (case results result of None \<Rightarrow> [] | Some rs \<Rightarrow> rs))"
proof -
  have h1: "CCXT_getHistoryKLineData (loadMarkets_always ()) None
       (fetchOHLCV_always [candle_at 1000, candle_at 2000, candle_at 5000]) BTC min15 1500 3000
     = Inr [CCXT_bar (candle_at 2000)]"
    by (simp add: CCXT_getHistoryKLineData_def CCXT_ensureMarketsLoaded_def candle_at_def
        fetchOHLCV_always_def loadMarkets_always_def valid_date_def)
  have h2: "OKX_getHistoryKLineData example_parseInt example_parseFloat
       (fetch_always (ok_response okx_newest_first)) BTC min15 1500 3000
     = Inr [OKX_bar example_parseInt example_parseFloat [''1000'', ''1'', ''2'', ''1'', ''2'', ''10''],
            OKX_bar example_parseInt example_parseFloat [''2000'', ''1'', ''2'', ''1'', ''2'', ''10'']]"
    by (simp add: OKX_getHistoryKLineData_def ok_response_def fetch_always_def
        okx_newest_first_def valid_date_def)
  have h3: "Default_getHistoryKLineData
       (fetch_always (ok_response \<lparr>results = Some [aggregate_at 11000, aggregate_at 12000]\<rparr>))
       ''key'' BTC min15 10000 20000
     = Inr [Default_bar (aggregate_at 11000), Default_bar (aggregate_at 12000)]"
    by (simp add: Default_getHistoryKLineData_def ok_response_def fetch_always_def valid_date_def)
  note t = history_range_and_order [of "loadMarkets_always ()" None
      "fetchOHLCV_always [candle_at 1000, candle_at 2000, candle_at 5000]" BTC min15 1500 3000
      "[CCXT_bar (candle_at 2000)]" example_parseInt example_parseFloat
      "fetch_always (ok_response okx_newest_first)"
      "[OKX_bar example_parseInt example_parseFloat [''1000'', ''1'', ''2'', ''1'', ''2'', ''10''],
        OKX_bar example_parseInt example_parseFloat [''2000'', ''1'', ''2'', ''1'', ''2'', ''10'']]"]
  from t h1 have "\<forall>b\<in>set [CCXT_bar (candle_at 2000)]. 1500 \<le> timestamp b \<and> timestamp b \<le> 3000"
    by blast
  then have c1: "1500 \<le> timestamp (CCXT_bar (candle_at 2000))"
    and c2: "timestamp (CCXT_bar (candle_at 2000)) \<le> 3000"
    by simp_all
  from t h2 have c3: "\<exists>response result.
       fetch_always (ok_response okx_newest_first) 0 (OKX_history_url BTC min15 1500 3000)
         = Inr response \<and>
       resp_json response = Inr result \<and>
       [OKX_bar example_parseInt example_parseFloat [''1000'', ''1'', ''2'', ''1'', ''2'', ''10''],
        OKX_bar example_parseInt example_parseFloat [''2000'', ''1'', ''2'', ''1'', ''2'', ''10'']]
         = rev (map (OKX_bar example_parseInt example_parseFloat)
             (case data result of None \<Rightarrow> [] | Some cs \<Rightarrow> cs))"
    by blast
  from history_range_and_order [of _ _ _ BTC min15 10000 20000 _ _ _ _ _
      "fetch_always (ok_response \<lparr>results = Some [aggregate_at 11000, aggregate_at 12000]\<rparr>)"
      "''key''" "[Default_bar (aggregate_at 11000), Default_bar (aggregate_at 12000)]"] h3
  have c4: "\<exists>response result.
       fetch_always (ok_response \<lparr>results = Some [aggregate_at 11000, aggregate_at 12000]\<rparr>) 0
         (Default_history_url ''key'' BTC min15 10000 20000) = Inr response \<and>
       resp_json response = Inr result \<and>
       [Default_bar (aggregate_at 11000), Default_bar (aggregate_at 12000)]
         = map Default_bar (case results result of None \<Rightarrow> [] | Some rs \<Rightarrow> rs)"
    by blast
  from h1 c1 c2 h2 c3 h3 c4 show ?thesis by blast
qed

text \<open>
  The claim as it was stated fails for \<^verbatim>\<open>DefaultDatafeed\<close>: asked for the range from 10000
  to 20000 and answered with the aggregates at 15000 and at 5, in that order, it returns
  both bars in that order.  The second lies outside the range, and the two do not ascend.
\<close>

theorem Default_history_counterexample:
  "Default_getHistoryKLineData
       (fetch_always (ok_response \<lparr>results = Some [aggregate_at 15000, aggregate_at 5]\<rparr>))
       ''key'' BTC min15 10000 20000
     = Inr [Default_bar (aggregate_at 15000), Default_bar (aggregate_at 5)] \<and>
   timestamp (Default_bar (aggregate_at 15000)) = 15000 \<and>
   timestamp (Default_bar (aggregate_at 5)) = 5 \<and>
   \<not> 10000 \<le> timestamp (Default_bar (aggregate_at 5)) \<and>
   \<not> sorted (map timestamp [Default_bar (aggregate_at 15000), Default_bar (aggregate_at 5)])"
  by (simp add: Default_getHistoryKLineData_def ok_response_def fetch_always_def Default_bar_def
      aggregate_at_def valid_date_def)

text \<open>
  Claim C6, as the code has it.  In \<^verbatim>\<open>DefaultDatafeed\<close>, \<^verbatim>\<open>OKXDataFeeds\<close> and
  \<^verbatim>\<open>CCXTDataFeeds\<close> a failed historical fetch ends in an error that reaches the caller: a
  response that is not ok gives the error \<^verbatim>\<open>API request failed\<close> with the status (or the
  error of reading its body), a body that is not JSON gives the parser's error, an OKX answer
  whose code is not \<^verbatim>\<open>0\<close> gives the error \<^verbatim>\<open>API error\<close> with its message, a rejected
  request or library call gives its reason, a failed load of the markets gives the error
  \<^verbatim>\<open>Failed to load markets\<close>, and a range that cannot be printed as dates gives a
  \<^verbatim>\<open>RangeError\<close> before any request.  \<^verbatim>\<open>LocalDataFeeds\<close> catches every one of these
  failures and returns the empty list.  Nothing is retried: in each adapter the result is
  fixed by the outcome of request 0, whatever a further request would be answered.
\<close>

theorem history_failure_policy:
  "(valid_date (from div 1000 * 1000) \<and> valid_date (to div 1000 * 1000) \<and>
      fetchD 0 (Default_history_url apiKey symbol period from to) = Inr r \<and> \<not> resp_ok r \<and>
      resp_text r = Inr body \<longrightarrow>
      Default_getHistoryKLineData fetchD apiKey symbol period from to
        = Inl (Thrown ''Error'' (''API request failed: '' @ showInt (resp_status r) @ '' ''
                 @ resp_statusText r))) \<and>
   (valid_date (from div 1000 * 1000) \<and> valid_date (to div 1000 * 1000) \<and>
      fetchD 0 (Default_history_url apiKey symbol period from to) = Inr r \<and> \<not> resp_ok r \<and>
      resp_text r = Inl e \<longrightarrow>
      Default_getHistoryKLineData fetchD apiKey symbol period from to = Inl e) \<and>
   (valid_date (from div 1000 * 1000) \<and> valid_date (to div 1000 * 1000) \<and>
      fetchD 0 (Default_history_url apiKey symbol period from to) = Inr r \<and> resp_ok r \<and>
      resp_json r = Inl e \<longrightarrow>
      Default_getHistoryKLineData fetchD apiKey symbol period from to = Inl e) \<and>
   (valid_date (from div 1000 * 1000) \<and> valid_date (to div 1000 * 1000) \<and>
      fetchD 0 (Default_history_url apiKey symbol period from to) = Inl e \<longrightarrow>
      Default_getHistoryKLineData fetchD apiKey symbol period from to = Inl e) \<and>
   (valid_date (from div 1000 * 1000) \<and> valid_date (to div 1000 * 1000) \<and>
      fetchO 0 (OKX_history_url symbol period from to) = Inr ro \<and> \<not> resp_ok ro \<and>
      resp_text ro = Inr body \<longrightarrow>
      OKX_getHistoryKLineData parseInt parseFloat fetchO symbol period from to
        = Inl (Thrown ''Error'' (''API request failed: '' @ showInt (resp_status ro) @ '' ''
                 @ resp_statusText ro))) \<and>
   (valid_date (from div 1000 * 1000) \<and> valid_date (to div 1000 * 1000) \<and>
      fetchO 0 (OKX_history_url symbol period from to) = Inr ro \<and> \<not> resp_ok ro \<and>
      resp_text ro = Inl e \<longrightarrow>
      OKX_getHistoryKLineData parseInt parseFloat fetchO symbol period from to = Inl e) \<and>
   (valid_date (from div 1000 * 1000) \<and> valid_date (to div 1000 * 1000) \<and>
      fetchO 0 (OKX_history_url symbol period from to) = Inr ro \<and> resp_ok ro \<and>
      resp_json ro = Inl e \<longrightarrow>
      OKX_getHistoryKLineData parseInt parseFloat fetchO symbol period from to = Inl e) \<and>
   (valid_date (from div 1000 * 1000) \<and> valid_date (to div 1000 * 1000) \<and>
      fetchO 0 (OKX_history_url symbol period from to) = Inr ro \<and> resp_ok ro \<and>
      resp_json ro = Inr result \<and> code result \<noteq> ''0'' \<longrightarrow>
      OKX_getHistoryKLineData parseInt parseFloat fetchO symbol period from to
        = Inl (Thrown ''Error'' (''API error: '' @ msg result))) \<and>
   (valid_date (from div 1000 * 1000) \<and> valid_date (to div 1000 * 1000) \<and>
      fetchO 0 (OKX_history_url symbol period from to) = Inl e \<longrightarrow>
      OKX_getHistoryKLineData parseInt parseFloat fetchO symbol period from to = Inl e) \<and>
   (valid_date from \<and> valid_date to \<and>
      CCXT_ensureMarketsLoaded loadMarkets markets = Inr loaded \<and>
      fetchOHLCV 0 (CCXT_convertTickerToSymbol symbol) (CCXT_convertPeriodToTimeframe period)
        from 1000 = Inl e \<longrightarrow>
      CCXT_getHistoryKLineData loadMarkets markets fetchOHLCV symbol period from to = Inl e) \<and>
   (markets = None \<and> loadMarkets 0 = Inl e \<longrightarrow>
      CCXT_getHistoryKLineData loadMarkets markets fetchOHLCV symbol period from to
        = Inl (Thrown ''Error'' (''Failed to load markets: '' @ error_text e))) \<and>
   (\<not> (valid_date (from div 1000 * 1000) \<and> valid_date (to div 1000 * 1000)) \<longrightarrow>
      Default_getHistoryKLineData fetchD apiKey symbol period from to
        = Inl (Thrown ''RangeError'' ''Invalid time value'') \<and>
      OKX_getHistoryKLineData parseInt parseFloat fetchO symbol period from to
        = Inl (Thrown ''RangeError'' ''Invalid time value'')) \<and>
   (CCXT_ensureMarketsLoaded loadMarkets markets = Inr loaded \<and>
      \<not> (valid_date from \<and> valid_date to) \<longrightarrow>
      CCXT_getHistoryKLineData loadMarkets markets fetchOHLCV symbol period from to
        = Inl (Thrown ''RangeError'' ''Invalid time value'')) \<and>
   (Local_history_try encodeURIComponent fetchL baseUrl symbol period from to = Inl e \<longrightarrow>
      Local_getHistoryKLineData encodeURIComponent fetchL baseUrl symbol period from to = Inr []) \<and>
   (encodeURIComponent (ticker symbol) = Inr encoded \<and>
      fetchL 0 (Local_history_url baseUrl encoded (Local_convertPeriodToTimeframe period) from to)
        = Inr rl \<and>
      (\<not> resp_ok rl \<or> resp_json rl = Inl e) \<longrightarrow>
      Local_getHistoryKLineData encodeURIComponent fetchL baseUrl symbol period from to = Inr []) \<and>
   (encodeURIComponent (ticker symbol) = Inr encoded \<and>
      fetchL 0 (Local_history_url baseUrl encoded (Local_convertPeriodToTimeframe period) from to)
        = Inl e \<longrightarrow>
      Local_getHistoryKLineData encodeURIComponent fetchL baseUrl symbol period from to = Inr []) \<and>
   (fetchD 0 = fetchD2 0 \<longrightarrow>
      Default_getHistoryKLineData fetchD apiKey symbol period from to
        = Default_getHistoryKLineData fetchD2 apiKey symbol period from to) \<and>
   (fetchO 0 = fetchO2 0 \<longrightarrow>
      OKX_getHistoryKLineData parseInt parseFloat fetchO symbol period from to
        = OKX_getHistoryKLineData parseInt parseFloat fetchO2 symbol period from to) \<and>
   (loadMarkets 0 = loadMarkets2 0 \<and> fetchOHLCV 0 = fetchOHLCV2 0 \<longrightarrow>
      CCXT_getHistoryKLineData loadMarkets markets fetchOHLCV symbol period from to
        = CCXT_getHistoryKLineData loadMarkets2 markets fetchOHLCV2 symbol period from to) \<and>
   (fetchL 0 = fetchL2 0 \<longrightarrow>
      Local_getHistoryKLineData encodeURIComponent fetchL baseUrl symbol period from to
        = Local_getHistoryKLineData encodeURIComponent fetchL2 baseUrl symbol period from to)"
  apply (intro conjI impI)
                      apply (elim conjE, rule Default_history_not_ok(1); assumption)
                     apply (elim conjE, rule Default_history_not_ok(2); assumption)
                    apply (elim conjE, rule Default_history_malformed; assumption)
                   apply (elim conjE, rule Default_history_rejected; assumption)
                  apply (elim conjE, rule OKX_history_not_ok; assumption)
                 apply (elim conjE, rule OKX_history_text_failed; assumption)
                apply (elim conjE, rule OKX_history_malformed; assumption)
               apply (elim conjE, rule OKX_history_api_error; assumption)
              apply (elim conjE, rule OKX_history_rejected; assumption)
             apply (elim conjE, rule CCXT_history_rejected; assumption)
            apply (elim conjE, rule CCXT_history_markets_failed; assumption)
           apply (rule history_invalid_range(1); assumption)
          apply (rule history_invalid_range(2); assumption)
         apply (elim conjE, rule CCXT_history_invalid_range; assumption)
        apply (rule Local_history_caught; assumption)
       apply (elim conjE, rule Local_history_failure_empty; assumption)
      apply (elim conjE, rule Local_history_rejected; assumption)
     apply (rule Default_history_first_answer; assumption)
    apply (rule OKX_history_first_answer; assumption)
   apply (elim conjE, rule CCXT_history_first_answer; assumption)
  apply (rule Local_history_first_answer; assumption)
  done

theorem history_failure_policy_witness:
  "fetch_script [Inr server_error_response,
                 Inr (ok_response \<lparr>results = Some [aggregate_at 11000]\<rparr>)] 0
       (Default_history_url ''key'' BTC min15 10000 20000)
     = Inr server_error_response \<and>
   fetch_script [Inr server_error_response,
                 Inr (ok_response \<lparr>results = Some [aggregate_at 11000]\<rparr>)] 1
       (Default_history_url ''key'' BTC min15 10000 20000)
     = Inr (ok_response \<lparr>results = Some [aggregate_at 11000]\<rparr>) \<and>
   \<not> resp_ok (server_error_response :: Default_result response) \<and>
   resp_text (server_error_response :: Default_result response) = Inr ''oops'' \<and>
   Default_getHistoryKLineData
       (fetch_script [Inr server_error_response,
                      Inr (ok_response \<lparr>results = Some [aggregate_at 11000]\<rparr>)])
       ''key'' BTC min15 10000 20000
     = Inl (Thrown ''Error'' ''API request failed: 500 Internal Server Error'') \<and>
   resp_ok (malformed_response :: Default_result response) \<and>
   Default_getHistoryKLineData (fetch_always malformed_response) ''key'' BTC min15 10000 20000
     = Inl (Thrown ''SyntaxError'' ''Unexpected token'') \<and>
   fetch_script [Inl (Thrown ''TypeError'' ''Failed to fetch''),
                 Inr (ok_response okx_newest_first)] 0 (OKX_history_url BTC min15 1500 3000)
     = Inl (Thrown ''TypeError'' ''Failed to fetch'') \<and>
   fetch_script [Inl (Thrown ''TypeError'' ''Failed to fetch''),
                 Inr (ok_response okx_newest_first)] 1 (OKX_history_url BTC min15 1500 3000)
     = Inr (ok_response okx_newest_first) \<and>
   OKX_getHistoryKLineData example_parseInt example_parseFloat
       (fetch_script [Inl (Thrown ''TypeError'' ''Failed to fetch''),
                      Inr (ok_response okx_newest_first)]) BTC min15 1500 3000
     = Inl (Thrown ''TypeError'' ''Failed to fetch'') \<and>
   code okx_error_result \<noteq> ''0'' \<and>
   OKX_getHistoryKLineData example_parseInt example_parseFloat
       (fetch_script [Inr (ok_response okx_error_result), Inr (ok_response okx_newest_first)])
       BTC min15 1500 3000
     = Inl (Thrown ''Error'' ''API error: Instrument ID does not exist'') \<and>
   CCXT_ensureMarketsLoaded (loadMarkets_always ()) None = Inr (Some ()) \<and>
   fetchOHLCV_script [Inl (Thrown ''NetworkError'' ''502 Bad Gateway''), Inr [candle_at 12000]] 1
       (CCXT_convertTickerToSymbol BTC) (CCXT_convertPeriodToTimeframe min15) 10000 1000
     = Inr [candle_at 12000] \<and>
   CCXT_getHistoryKLineData (loadMarkets_always ()) None
       (fetchOHLCV_script [Inl (Thrown ''NetworkError'' ''502 Bad Gateway''),
                           Inr [candle_at 12000]]) BTC min15 10000 20000
     = Inl (Thrown ''NetworkError'' ''502 Bad Gateway'') \<and>
   loadMarkets_script [Inl (Thrown ''ExchangeNotAvailable'' ''down''), Inr ()] 1 = Inr () \<and>
   CCXT_getHistoryKLineData
       (loadMarkets_script [Inl (Thrown ''ExchangeNotAvailable'' ''down''), Inr ()]) None
       (fetchOHLCV_always [candle_at 12000]) BTC min15 10000 20000
     = Inl (Thrown ''Error'' ''Failed to load markets: ExchangeNotAvailable: down'') \<and>
   encode_unreserved (ticker BTC) = Inr ''BTC-USDT'' \<and>
   \<not> resp_ok (server_error_response :: KLineData list response) \<and>
   Local_getHistoryKLineData encode_unreserved
       (fetch_script [Inr server_error_response, Inr (ok_response [CCXT_bar (candle_at 12000)])])
       ''http://localhost:8000'' BTC min15 10000 20000 = Inr [] \<and>
   Local_getHistoryKLineData encode_unreserved
       (fetch_script [Inl (Thrown ''TypeError'' ''Failed to fetch''),
                      Inr (ok_response [CCXT_bar (candle_at 12000)])])
       ''http://localhost:8000'' BTC min15 10000 20000 = Inr [] \<and>
   Default_getHistoryKLineData
       (fetch_script [Inl (Thrown ''TypeError'' ''Failed to fetch''),
                      Inr (ok_response \<lparr>results = Some [aggregate_at 11000]\<rparr>)])
       ''key'' BTC min15 10000 20000
     = Default_getHistoryKLineData (fetch_script [Inl (Thrown ''TypeError'' ''Failed to fetch'')])
         ''key'' BTC min15 10000 20000 \<and>
   Default_getHistoryKLineData (fetch_script [Inl (Thrown ''TypeError'' ''Failed to fetch'')])
       ''key'' BTC min15 10000 20000
     = Inl (Thrown ''TypeError'' ''Failed to fetch'')"
proof -
  let ?ok = "Inr (ok_response \<lparr>results = Some [aggregate_at 11000]\<rparr>)
               :: error + Default_result response"
  let ?df = "fetch_script [Inr (server_error_response :: Default_result response), ?ok]"
  let ?dm = "fetch_always (malformed_response :: Default_result response)"
  let ?tf = "Thrown ''TypeError'' ''Failed to fetch''"
  let ?ne = "Thrown ''NetworkError'' ''502 Bad Gateway''"
  let ?me = "Thrown ''ExchangeNotAvailable'' ''down''"
  let ?lm = "loadMarkets_script [Inl ?me, Inr ()]"
  let ?orj = "fetch_script [Inl ?tf, Inr (ok_response okx_newest_first)]"
  let ?oer = "fetch_script [Inr (ok_response okx_error_result), Inr (ok_response okx_newest_first)]"
  let ?cf = "fetchOHLCV_script [Inl ?ne, Inr [candle_at 12000]]"
  let ?lok = "Inr (ok_response [CCXT_bar (candle_at 12000)]) :: error + KLineData list response"
  let ?lf = "fetch_script [Inr (server_error_response :: KLineData list response), ?lok]"
  let ?lr = "fetch_script [Inl ?tf, ?lok]"
  let ?d2 = "fetch_script [Inl ?tf, ?ok]"
  let ?d1 = "fetch_script [Inl ?tf] :: nat \<Rightarrow> string \<Rightarrow> error + Default_result response"
  have v1: "valid_date (10000 div 1000 * 1000)" and v2: "valid_date (20000 div 1000 * 1000)"
    and v3: "valid_date 10000" and v4: "valid_date 20000"
    and v5: "valid_date (1500 div 1000 * 1000)" and v6: "valid_date (3000 div 1000 * 1000)"
    by (simp_all add: valid_date_def)
  have d1: "?df 0 (Default_history_url ''key'' BTC min15 10000 20000) = Inr server_error_response"
    by (simp add: fetch_script_def)
  have d1': "?df 1 (Default_history_url ''key'' BTC min15 10000 20000) = ?ok"
    by (simp add: fetch_script_def)
  have d2: "\<not> resp_ok (server_error_response :: Default_result response)"
    by (simp add: server_error_response_def)
  have d3: "resp_text (server_error_response :: Default_result response) = Inr ''oops''"
    by (simp add: server_error_response_def)
  have d4: "''API request failed: ''
      @ showInt (resp_status (server_error_response :: Default_result response))
      @ '' '' @ resp_statusText (server_error_response :: Default_result response)
      = ''API request failed: 500 Internal Server Error''"
    by (simp add: server_error_response_def showInt_def)
  have m1: "?dm 0 (Default_history_url ''key'' BTC min15 10000 20000) = Inr malformed_response"
    by (simp add: fetch_always_def)
  have m2: "resp_ok (malformed_response :: Default_result response)"
    by (simp add: malformed_response_def)
  have m3: "resp_json (malformed_response :: Default_result response)
      = Inl (Thrown ''SyntaxError'' ''Unexpected token'')"
    by (simp add: malformed_response_def)
  have o1: "?orj 0 (OKX_history_url BTC min15 1500 3000) = Inl ?tf"
    by (simp add: fetch_script_def)
  have o1': "?orj 1 (OKX_history_url BTC min15 1500 3000) = Inr (ok_response okx_newest_first)"
    by (simp add: fetch_script_def)
  have o2: "?oer 0 (OKX_history_url BTC min15 1500 3000) = Inr (ok_response okx_error_result)"
    by (simp add: fetch_script_def)
  have o3: "resp_ok (ok_response okx_error_result)"
    by (simp add: ok_response_def)
  have o4: "resp_json (ok_response okx_error_result) = Inr okx_error_result"
    by (simp add: ok_response_def)
  have o5: "code okx_error_result \<noteq> ''0''"
    by (simp add: okx_error_result_def)
  have o6: "''API error: '' @ msg okx_error_result = ''API error: Instrument ID does not exist''"
    by (simp add: okx_error_result_def)
  have c1: "CCXT_ensureMarketsLoaded (loadMarkets_always ()) None = Inr (Some ())"
    by (simp add: CCXT_ensureMarketsLoaded_def loadMarkets_always_def)
  have c2: "?cf 0 (CCXT_convertTickerToSymbol BTC) (CCXT_convertPeriodToTimeframe min15)
      10000 1000 = Inl ?ne"
    by (simp add: fetchOHLCV_script_def)
  have c2': "?cf 1 (CCXT_convertTickerToSymbol BTC) (CCXT_convertPeriodToTimeframe min15)
      10000 1000 = Inr [candle_at 12000]"
    by (simp add: fetchOHLCV_script_def)
  have c3: "''Failed to load markets: '' @ error_text ?me
      = ''Failed to load markets: ExchangeNotAvailable: down''"
    by simp
  have l1: "encode_unreserved (ticker BTC) = Inr ''BTC-USDT''"
    by (simp add: encode_unreserved_def BTC_def)
  have l2: "?lf 0 (Local_history_url ''http://localhost:8000'' ''BTC-USDT''
      (Local_convertPeriodToTimeframe min15) 10000 20000) = Inr server_error_response"
    by (simp add: fetch_script_def)
  have l3: "\<not> resp_ok (server_error_response :: KLineData list response)"
    by (simp add: server_error_response_def)
  have l4: "?lr 0 (Local_history_url ''http://localhost:8000'' ''BTC-USDT''
      (Local_convertPeriodToTimeframe min15) 10000 20000) = Inl ?tf"
    by (simp add: fetch_script_def)
  have n1: "?d2 0 = ?d1 0"
    by (rule ext) (simp add: fetch_script_def)
  have n2: "?d1 0 (Default_history_url ''key'' BTC min15 10000 20000) = Inl ?tf"
    by (simp add: fetch_script_def)
  have "Default_getHistoryKLineData ?df ''key'' BTC min15 10000 20000
      = Inl (Thrown ''Error'' (''API request failed: ''
          @ showInt (resp_status (server_error_response :: Default_result response)) @ '' ''
          @ resp_statusText (server_error_response :: Default_result response)))"
    by (rule history_failure_policy [where body = "''oops''"
        and r = "server_error_response :: Default_result response", THEN conjunct1, THEN mp])
      (intro conjI v1 v2 d1 d2 d3)
  then have r1: "Default_getHistoryKLineData ?df ''key'' BTC min15 10000 20000
      = Inl (Thrown ''Error'' ''API request failed: 500 Internal Server Error'')"
    unfolding d4 .
  have r2: "Default_getHistoryKLineData ?dm ''key'' BTC min15 10000 20000
      = Inl (Thrown ''SyntaxError'' ''Unexpected token'')"
    by (rule history_failure_policy [where r = "malformed_response :: Default_result response",
        THEN conjunct2, THEN conjunct2, THEN conjunct1, THEN mp])
      (intro conjI v1 v2 m1 m2 m3)
  have r3: "OKX_getHistoryKLineData example_parseInt example_parseFloat ?orj BTC min15 1500 3000
      = Inl ?tf"
    by (rule history_failure_policy [THEN conjunct2, THEN conjunct2, THEN conjunct2,
        THEN conjunct2, THEN conjunct2, THEN conjunct2, THEN conjunct2, THEN conjunct2,
        THEN conjunct1, THEN mp])
      (intro conjI v5 v6 o1)
  have "OKX_getHistoryKLineData example_parseInt example_parseFloat ?oer BTC min15 1500 3000
      = Inl (Thrown ''Error'' (''API error: '' @ msg okx_error_result))"
    by (rule history_failure_policy [where ro = "ok_response okx_error_result"
        and result = okx_error_result, THEN conjunct2, THEN conjunct2, THEN conjunct2,
        THEN conjunct2, THEN conjunct2, THEN conjunct2, THEN conjunct2, THEN conjunct1, THEN mp])
      (intro conjI v5 v6 o2 o3 o4 o5)
  then have r4: "OKX_getHistoryKLineData example_parseInt example_parseFloat ?oer BTC min15
      1500 3000 = Inl (Thrown ''Error'' ''API error: Instrument ID does not exist'')"
    unfolding o6 .
  have r5: "CCXT_getHistoryKLineData (loadMarkets_always ()) None ?cf BTC min15 10000 20000 = Inl ?ne"
    by (rule history_failure_policy [where loaded = "Some ()", THEN conjunct2, THEN conjunct2,
        THEN conjunct2, THEN conjunct2, THEN conjunct2, THEN conjunct2, THEN conjunct2,
        THEN conjunct2, THEN conjunct2, THEN conjunct1, THEN mp])
      (intro conjI v3 v4 c1 c2)
  have c4: "?lm 0 = Inl ?me" and c4': "?lm 1 = Inr ()"
    by (simp_all add: loadMarkets_script_def)
  have "CCXT_getHistoryKLineData ?lm None
      (fetchOHLCV_always [candle_at 12000]) BTC min15 10000 20000
      = Inl (Thrown ''Error'' (''Failed to load markets: '' @ error_text ?me))"
    by (rule history_failure_policy [THEN conjunct2, THEN conjunct2,
        THEN conjunct2, THEN conjunct2, THEN conjunct2, THEN conjunct2, THEN conjunct2,
        THEN conjunct2, THEN conjunct2, THEN conjunct2, THEN conjunct1, THEN mp])
      (intro conjI refl c4)
  then have r6: "CCXT_getHistoryKLineData ?lm None
      (fetchOHLCV_always [candle_at 12000]) BTC min15 10000 20000
      = Inl (Thrown ''Error'' ''Failed to load markets: ExchangeNotAvailable: down'')"
    unfolding c3 .
  have r7: "Local_getHistoryKLineData encode_unreserved ?lf ''http://localhost:8000'' BTC min15
      10000 20000 = Inr []"
    by (rule history_failure_policy [where encoded = "''BTC-USDT''"
        and rl = "server_error_response :: KLineData list response" and e = "Thrown [] []",
        THEN conjunct2, THEN conjunct2, THEN conjunct2, THEN conjunct2, THEN conjunct2,
        THEN conjunct2, THEN conjunct2, THEN conjunct2, THEN conjunct2, THEN conjunct2,
        THEN conjunct2, THEN conjunct2, THEN conjunct2, THEN conjunct2, THEN conjunct1, THEN mp])
      (intro conjI l1 l2 disjI1 l3)
  have r8: "Local_getHistoryKLineData encode_unreserved ?lr ''http://localhost:8000'' BTC min15
      10000 20000 = Inr []"
    by (rule history_failure_policy [where encoded = "''BTC-USDT''" and e = ?tf,
        THEN conjunct2, THEN conjunct2, THEN conjunct2, THEN conjunct2, THEN conjunct2,
        THEN conjunct2, THEN conjunct2, THEN conjunct2, THEN conjunct2, THEN conjunct2,
        THEN conjunct2, THEN conjunct2, THEN conjunct2, THEN conjunct2, THEN conjunct2,
        THEN conjunct1, THEN mp])
      (intro conjI l1 l4)
  have r9: "Default_getHistoryKLineData ?d2 ''key'' BTC min15 10000 20000
      = Default_getHistoryKLineData ?d1 ''key'' BTC min15 10000 20000"
    by (rule history_failure_policy [THEN conjunct2, THEN conjunct2, THEN conjunct2,
        THEN conjunct2, THEN conjunct2, THEN conjunct2, THEN conjunct2, THEN conjunct2,
        THEN conjunct2, THEN conjunct2, THEN conjunct2, THEN conjunct2, THEN conjunct2,
        THEN conjunct2, THEN conjunct2, THEN conjunct2, THEN conjunct1, THEN mp])
      (rule n1)
  have r10: "Default_getHistoryKLineData ?d1 ''key'' BTC min15 10000 20000 = Inl ?tf"
    by (rule history_failure_policy [THEN conjunct2, THEN conjunct2, THEN conjunct2,
        THEN conjunct1, THEN mp])
      (intro conjI v1 v2 n2)
  show ?thesis
    by (intro conjI d1 d1' d2 d3 r1 m2 r2 o1 o1' r3 o5 r4 c1 c2' r5 c4' r6 l1 l3 r7 r8 r9 r10)
qed

text \<open>
  The claim as it was stated fails for \<^verbatim>\<open>LocalDataFeeds\<close>: answered with status 500, or
  with a body that is not JSON, the fetch ends with the empty list and no error.
\<close>

theorem Local_history_counterexample:
  "\<not> resp_ok (server_error_response :: KLineData list response) \<and>
   Local_getHistoryKLineData encode_unreserved (fetch_always server_error_response)
       ''http://localhost:8000'' BTC min15 10000 20000 = Inr [] \<and>
   resp_json (malformed_response :: KLineData list response)
     = Inl (Thrown ''SyntaxError'' ''Unexpected token'') \<and>
   Local_getHistoryKLineData encode_unreserved (fetch_always malformed_response)
       ''http://localhost:8000'' BTC min15 10000 20000 = Inr []"
  by (simp add: Local_getHistoryKLineData_def Local_history_try_def fetch_always_def
      encode_unreserved_def server_error_response_def malformed_response_def)

text \<open>
  Claim C7.  Symbol normalisation is idempotent in the three adapters: converting a
  converted ticker changes nothing.  For \<^verbatim>\<open>CCXTDataFeeds\<close> the converted ticker is put
  back into the symbol.  A ticker that already holds the separator of the target form is
  returned as it is.
\<close>

theorem symbol_normalization_idempotent:
  "Default_convertTickerFormat (Default_convertTickerFormat x) = Default_convertTickerFormat x \<and>
   OKX_convertTickerFormat (OKX_convertTickerFormat x q) q' = OKX_convertTickerFormat x q \<and>
   CCXT_convertTickerToSymbol (s\<lparr>ticker := CCXT_convertTickerToSymbol s\<rparr>)
     = CCXT_convertTickerToSymbol s \<and>
   (str_includes x ''-'' \<longrightarrow> Default_convertTickerFormat x = x) \<and>
   (str_includes x ''-'' \<longrightarrow> OKX_convertTickerFormat x q = x) \<and>
   (str_includes (ticker s) ''/'' \<longrightarrow> CCXT_convertTickerToSymbol s = ticker s)"
proof -
  have d: "Default_convertTickerFormat (Default_convertTickerFormat x)
      = Default_convertTickerFormat x"
    by (simp add: Default_convertTickerFormat_def Let_def str_includes_char)
  have k: "OKX_convertTickerFormat (OKX_convertTickerFormat x q) q' = OKX_convertTickerFormat x q"
    by (simp add: OKX_convertTickerFormat_def Let_def str_includes_char)
  have c: "CCXT_convertTickerToSymbol (s\<lparr>ticker := CCXT_convertTickerToSymbol s\<rparr>)
      = CCXT_convertTickerToSymbol s"
    by (simp add: CCXT_convertTickerToSymbol_def Let_def str_includes_char replace_first_slash)
  have u: "str_includes x ''-'' \<longrightarrow> Default_convertTickerFormat x = x"
    by (simp add: Default_convertTickerFormat_def)
  have v: "str_includes x ''-'' \<longrightarrow> OKX_convertTickerFormat x q = x"
    by (simp add: OKX_convertTickerFormat_def)
  have w: "str_includes (ticker s) ''/'' \<longrightarrow> CCXT_convertTickerToSymbol s = ticker s"
    by (simp add: CCXT_convertTickerToSymbol_def)
  from d k c u v w show ?thesis by blast
qed

theorem symbol_normalization_idempotent_witness:
  "str_includes ''BTC-USD'' ''-'' \<and>
   Default_convertTickerFormat ''BTC-USD'' = ''BTC-USD'' \<and>
   OKX_convertTickerFormat ''BTC-USD'' ''USDT'' = ''BTC-USD'' \<and>
   str_includes ''BTC/USDT'' ''/'' \<and>
   CCXT_convertTickerToSymbol
     \<lparr>ticker = ''BTC/USDT'', shortName = None, market = None, priceCurrency = None\<rparr>
     = ''BTC/USDT'' \<and>
   Default_convertTickerFormat ''X.BTCUSD'' = ''BTC-USD'' \<and>
   Default_convertTickerFormat (Default_convertTickerFormat ''X.BTCUSD'') = ''BTC-USD''"
proof -
  let ?s = "\<lparr>ticker = ''BTC/USDT'', shortName = None, market = None, priceCurrency = None\<rparr>"
  have h1: "str_includes ''BTC-USD'' ''-''" by code_simp
  have h2: "str_includes ''BTC/USDT'' ''/''" by code_simp
  then have h2': "str_includes (ticker ?s) ''/''" by simp
  have e: "Default_convertTickerFormat ''X.BTCUSD'' = ''BTC-USD''" by code_simp
  note t = symbol_normalization_idempotent [of "''BTC-USD''" "''USDT''" "''USDT''" ?s]
  note t2 = symbol_normalization_idempotent [of "''X.BTCUSD''" "''USDT''" "''USDT''" ?s]
  from t h1 have a: "Default_convertTickerFormat ''BTC-USD'' = ''BTC-USD''" by blast
  from t h1 have b: "OKX_convertTickerFormat ''BTC-USD'' ''USDT'' = ''BTC-USD''" by blast
  from t h2' have "CCXT_convertTickerToSymbol ?s = ticker ?s" by blast
  then have c: "CCXT_convertTickerToSymbol ?s = ''BTC/USDT''" by simp
  from t2 have "Default_convertTickerFormat (Default_convertTickerFormat ''X.BTCUSD'')
      = Default_convertTickerFormat ''X.BTCUSD''" by blast
  then have d: "Default_convertTickerFormat (Default_convertTickerFormat ''X.BTCUSD'') = ''BTC-USD''"
    using e by (rule trans)
  from h1 h2 a b c d e show ?thesis by blast
qed

text \<open>
  Claim C8 asks that a \<^verbatim>\<open>subscribe\<close> for the channel that is current, while the connection is
  open, replaces the stored callback and nothing else.  \<^verbatim>\<open>OKXDataFeeds\<close> and
  \<^verbatim>\<open>DefaultDatafeed\<close> do not keep to it.  Subscribe with callback 1, let the socket open (and,
  for \<^verbatim>\<open>DefaultDatafeed\<close>, the authentication succeed), subscribe again for the same symbol
  and period with callback 2, and let a bar of that symbol arrive.  The socket is kept, none
  is closed or made, and the channel stays, as the claim says; but the second call never
  reads its callback: it sends one more subscribe frame, the handlers of the socket go on
  holding callback 1, and the bar is passed to callback 1.  Callback 2 is never called.
\<close>

theorem resubscribe_keeps_first_callback:
  "OKX_currentChannel (OKX_run example_parseInt example_parseFloat OKX_init
      [OKX_Subscribe BTC min1 1, OKX_Opened 0]) = Some ''candles1m'' \<and>
   map os_readyState (OKX_sockets (OKX_run example_parseInt example_parseFloat OKX_init
      [OKX_Subscribe BTC min1 1, OKX_Opened 0])) = [OPEN] \<and>
   OKX_ws (OKX_run example_parseInt example_parseFloat OKX_init
      [OKX_Subscribe BTC min1 1, OKX_Opened 0, OKX_Subscribe BTC min1 2]) = Some 0 \<and>
   map os_readyState (OKX_sockets (OKX_run example_parseInt example_parseFloat OKX_init
      [OKX_Subscribe BTC min1 1, OKX_Opened 0, OKX_Subscribe BTC min1 2])) = [OPEN] \<and>
   OKX_currentChannel (OKX_run example_parseInt example_parseFloat OKX_init
      [OKX_Subscribe BTC min1 1, OKX_Opened 0, OKX_Subscribe BTC min1 2]) = Some ''candles1m'' \<and>
   map os_pendingCallback (OKX_sockets (OKX_run example_parseInt example_parseFloat OKX_init
      [OKX_Subscribe BTC min1 1, OKX_Opened 0, OKX_Subscribe BTC min1 2])) = [1] \<and>
   map os_sent (OKX_sockets (OKX_run example_parseInt example_parseFloat OKX_init
      [OKX_Subscribe BTC min1 1, OKX_Opened 0, OKX_Subscribe BTC min1 2]))
     = [[SubscribeFrame ''candles1m'' ''BTC-USDT'', SubscribeFrame ''candles1m'' ''BTC-USDT'']] \<and>
   map (\<lambda>c. (fst c, timestamp (snd c)))
     (OKX_calls (OKX_run example_parseInt example_parseFloat OKX_init
        [OKX_Subscribe BTC min1 1, OKX_Opened 0, OKX_Subscribe BTC min1 2,
         OKX_Message 0 (Some okx_candle_message)]))
     = [(1, Number 60000)] \<and>
   map ds_readyState (Default_sockets (Default_run (Default_init ''key'')
      [Default_Subscribe XBTC min1 1, Default_Opened 0,
       Default_Message 0 (Some [auth_success_item])])) = [OPEN] \<and>
   Default_ws (Default_run (Default_init ''key'')
      [Default_Subscribe XBTC min1 1, Default_Opened 0,
       Default_Message 0 (Some [auth_success_item]), Default_Subscribe XBTC min1 2]) = Some 0 \<and>
   map ds_readyState (Default_sockets (Default_run (Default_init ''key'')
      [Default_Subscribe XBTC min1 1, Default_Opened 0,
       Default_Message 0 (Some [auth_success_item]), Default_Subscribe XBTC min1 2])) = [OPEN] \<and>
   map ds_callback (Default_sockets (Default_run (Default_init ''key'')
      [Default_Subscribe XBTC min1 1, Default_Opened 0,
       Default_Message 0 (Some [auth_success_item]), Default_Subscribe XBTC min1 2])) = [1] \<and>
   map ds_sent (Default_sockets (Default_run (Default_init ''key'')
      [Default_Subscribe XBTC min1 1, Default_Opened 0,
       Default_Message 0 (Some [auth_success_item]), Default_Subscribe XBTC min1 2]))
     = [[Frame ''auth'' ''key'', Frame ''subscribe'' ''XA.BTC-USD'',
         Frame ''subscribe'' ''XA.BTC-USD'']] \<and>
   map (\<lambda>c. (fst c, timestamp (snd c)))
     (Default_calls (Default_run (Default_init ''key'')
        [Default_Subscribe XBTC min1 1, Default_Opened 0,
         Default_Message 0 (Some [auth_success_item]), Default_Subscribe XBTC min1 2,
         Default_Message 0 (Some [xa_item])]))
     = [(1, 60000)]"
  by code_simp

text \<open>
  \<^verbatim>\<open>LocalDataFeeds\<close> does what claim C8 says (lemma \<open>Local_resub\<close>): on the same run the
  socket and the channel stay, no frame is sent, and the bar is passed to callback 2.
\<close>

lemma Local_resubscribe_swaps_callback:
  "Local_subscribe (Local_run Local_init [Subscribe BTC min1 1 True, Opened 0]) BTC min1 2 True
     = (Local_run Local_init [Subscribe BTC min1 1 True, Opened 0])\<lparr>Local_callback := Some 2\<rparr> \<and>
   map ls_readyState (Local_sockets (Local_run Local_init
      [Subscribe BTC min1 1 True, Opened 0, Subscribe BTC min1 2 True])) = [OPEN] \<and>
   Local_currentChannel (Local_run Local_init
      [Subscribe BTC min1 1 True, Opened 0, Subscribe BTC min1 2 True]) = Some ''BTC-USDT_1m'' \<and>
   map (\<lambda>c. (fst c, timestamp (snd (snd c))))
     (Local_calls (Local_run Local_init
        [Subscribe BTC min1 1 True, Opened 0, Subscribe BTC min1 2 True,
         Message 0 (Some (CCXT_bar (candle_at 60000)))]))
     = [(2, 60000)]"
  by code_simp

text \<open>
  \<^verbatim>\<open>OKXDataFeeds\<close> decides between keeping the socket and reconnecting by the market of the
  symbol, not by the channel: a second call for the same channel with a symbol of another
  market closes the open socket and makes a new one.
\<close>

lemma OKX_market_change_reconnects:
  "OKX_currentChannel (OKX_run example_parseInt example_parseFloat OKX_init
      [OKX_Subscribe BTC min1 1, OKX_Opened 0]) = Some ''candles1m'' \<and>
   OKX_currentChannel (OKX_run example_parseInt example_parseFloat OKX_init
      [OKX_Subscribe BTC min1 1, OKX_Opened 0,
       OKX_Subscribe (BTC\<lparr>market := Some ''spot''\<rparr>) min1 2]) = Some ''candles1m'' \<and>
   map os_readyState (OKX_sockets (OKX_run example_parseInt example_parseFloat OKX_init
      [OKX_Subscribe BTC min1 1, OKX_Opened 0,
       OKX_Subscribe (BTC\<lparr>market := Some ''spot''\<rparr>) min1 2])) = [CLOSING, CONNECTING] \<and>
   OKX_ws (OKX_run example_parseInt example_parseFloat OKX_init
      [OKX_Subscribe BTC min1 1, OKX_Opened 0,
       OKX_Subscribe (BTC\<lparr>market := Some ''spot''\<rparr>) min1 2]) = Some 1"
  by code_simp

text \<open>
  Claim C9, as the code has it.  For a period whose unit is none of minute, hour, day,
  week and month, \<^verbatim>\<open>CCXTDataFeeds._convertPeriodToTimeframe\<close> and
  \<^verbatim>\<open>OKXDataFeeds._convertPeriodToBar\<close> return the one-minute default \<^verbatim>\<open>1m\<close>, and
  \<^verbatim>\<open>LocalDataFeeds._convertPeriodToTimeframe\<close> returns its own default \<^verbatim>\<open>15m\<close>.  The three
  conversions have no failing branch: each returns a string for every period.
\<close>

theorem unrecognized_unit_default:
  assumes "timespan p \<notin> {''minute'', ''hour'', ''day'', ''week'', ''month''}"
  shows "CCXT_convertPeriodToTimeframe p = ''1m'' \<and>
         OKX_convertPeriodToBar p = ''1m'' \<and>
         Local_convertPeriodToTimeframe p = ''15m''"
  using assms
  by (simp add: CCXT_convertPeriodToTimeframe_def OKX_convertPeriodToBar_def
      Local_convertPeriodToTimeframe_def Let_def)

theorem unrecognized_unit_default_witness:
  "timespan \<lparr>multiplier = 3, timespan = ''year''\<rparr>
     \<notin> {''minute'', ''hour'', ''day'', ''week'', ''month''} \<and>
   CCXT_convertPeriodToTimeframe \<lparr>multiplier = 3, timespan = ''year''\<rparr> = ''1m'' \<and>
   OKX_convertPeriodToBar \<lparr>multiplier = 3, timespan = ''year''\<rparr> = ''1m'' \<and>
   Local_convertPeriodToTimeframe \<lparr>multiplier = 3, timespan = ''year''\<rparr> = ''15m''"
proof -
  have h: "timespan \<lparr>multiplier = 3, timespan = ''year''\<rparr>
     \<notin> {''minute'', ''hour'', ''day'', ''week'', ''month''}" by simp
  from h unrecognized_unit_default [OF h] show ?thesis by blast
qed

text \<open>
  The claim as it was stated fails for the local adapter: a yearly period is an
  unrecognised unit there, and the result is \<^verbatim>\<open>15m\<close>, not the one-minute default.
\<close>

theorem Local_unrecognized_unit_counterexample:
  "timespan \<lparr>multiplier = 1, timespan = ''year''\<rparr>
     \<notin> {''minute'', ''hour'', ''day'', ''week'', ''month''} \<and>
   Local_convertPeriodToTimeframe \<lparr>multiplier = 1, timespan = ''year''\<rparr> = ''15m'' \<and>
   Local_convertPeriodToTimeframe \<lparr>multiplier = 1, timespan = ''year''\<rparr> \<noteq> ''1m''"
  by (simp add: Local_convertPeriodToTimeframe_def)

text \<open>
  Claim C10.  Take a ticker without \<^verbatim>\<open>-\<close>.  \<^verbatim>\<open>DefaultDatafeed._convertTickerFormat\<close> works
  on the ticker without its leading \<^verbatim>\<open>X.\<close>: on \<open>s\<close> when the ticker is \<^verbatim>\<open>X.\<close> followed by
  \<open>s\<close>, and on the ticker itself when it does not start with \<^verbatim>\<open>X.\<close>.  That string is split
  on \<^verbatim>\<open>USD\<close>, which gives one piece more than there are occurrences of \<^verbatim>\<open>USD\<close> in it.  With
  exactly one occurrence the result is what stands before it followed by \<^verbatim>\<open>-USD\<close>, and
  what stands after it is dropped; with none or with several the ticker is returned as it
  came, prefix included.
\<close>

theorem Default_convertTickerFormat_split:
  assumes "\<not> str_includes t ''-''"
    and "t = ''X.'' @ s \<or> (\<not> startsWith t ''X.'' \<and> s = t)"
  shows "length (str_split s ''USD'') = Suc (occurrences ''USD'' s) \<and>
         (occurrences ''USD'' s = 1 \<longrightarrow>
            (\<exists>a b. s = a @ ''USD'' @ b \<and>
                   \<not> str_includes a ''USD'' \<and> \<not> str_includes b ''USD'' \<and>
                   Default_convertTickerFormat t = a @ ''-USD'')) \<and>
         (occurrences ''USD'' s \<noteq> 1 \<longrightarrow> Default_convertTickerFormat t = t)"
proof -
  from assms(2) have "remove_prefix ''X.'' t = s"
  proof
    assume "t = ''X.'' @ s"
    then show ?thesis by (simp only: remove_prefix_present)
  next
    assume "\<not> startsWith t ''X.'' \<and> s = t"
    then show ?thesis by (simp add: remove_prefix_absent)
  qed
  with Default_split_after_strip [OF assms(1)] show ?thesis by simp
qed

theorem Default_convertTickerFormat_split_witness:
  "\<not> str_includes ''X.BTCUSD'' ''-'' \<and>
   ''X.BTCUSD'' = ''X.'' @ ''BTCUSD'' \<and>
   occurrences ''USD'' ''BTCUSD'' = 1 \<and>
   (\<exists>a b. ''BTCUSD'' = a @ ''USD'' @ b \<and>
          \<not> str_includes a ''USD'' \<and> \<not> str_includes b ''USD'' \<and>
          Default_convertTickerFormat ''X.BTCUSD'' = a @ ''-USD'') \<and>
   Default_convertTickerFormat ''X.BTCUSD'' = ''BTC-USD'' \<and>
   \<not> str_includes ''ETHUSDT'' ''-'' \<and>
   \<not> startsWith ''ETHUSDT'' ''X.'' \<and>
   occurrences ''USD'' ''ETHUSDT'' = 1 \<and>
   (\<exists>a b. ''ETHUSDT'' = a @ ''USD'' @ b \<and>
          \<not> str_includes a ''USD'' \<and> \<not> str_includes b ''USD'' \<and>
          Default_convertTickerFormat ''ETHUSDT'' = a @ ''-USD'') \<and>
   Default_convertTickerFormat ''ETHUSDT'' = ''ETH-USD'' \<and>
   \<not> str_includes ''X.USDUSD'' ''-'' \<and>
   ''X.USDUSD'' = ''X.'' @ ''USDUSD'' \<and>
   occurrences ''USD'' ''USDUSD'' = 2 \<and>
   Default_convertTickerFormat ''X.USDUSD'' = ''X.USDUSD'' \<and>
   \<not> str_includes ''X.BTCEUR'' ''-'' \<and>
   occurrences ''USD'' ''BTCEUR'' = 0 \<and>
   Default_convertTickerFormat ''X.BTCEUR'' = ''X.BTCEUR''"
proof -
  have h1: "\<not> str_includes ''X.BTCUSD'' ''-''" by code_simp
  have p1: "''X.BTCUSD'' = ''X.'' @ ''BTCUSD''" by simp
  have o1: "occurrences ''USD'' ''BTCUSD'' = 1" by code_simp
  have e1: "Default_convertTickerFormat ''X.BTCUSD'' = ''BTC-USD''" by code_simp
  have h2: "\<not> str_includes ''ETHUSDT'' ''-''" by code_simp
  have p2: "\<not> startsWith ''ETHUSDT'' ''X.''" by code_simp
  have o2: "occurrences ''USD'' ''ETHUSDT'' = 1" by code_simp
  have e2: "Default_convertTickerFormat ''ETHUSDT'' = ''ETH-USD''" by code_simp
  have h3: "\<not> str_includes ''X.USDUSD'' ''-''" by code_simp
  have p3: "''X.USDUSD'' = ''X.'' @ ''USDUSD''" by simp
  have o3: "occurrences ''USD'' ''USDUSD'' = 2" by code_simp
  then have n3: "occurrences ''USD'' ''USDUSD'' \<noteq> 1" by simp
  have h4: "\<not> str_includes ''X.BTCEUR'' ''-''" by code_simp
  have p4: "''X.BTCEUR'' = ''X.'' @ ''BTCEUR''" by simp
  have o4: "occurrences ''USD'' ''BTCEUR'' = 0" by code_simp
  then have n4: "occurrences ''USD'' ''BTCEUR'' \<noteq> 1" by simp
  have c1: "\<exists>a b. ''BTCUSD'' = a @ ''USD'' @ b \<and>
          \<not> str_includes a ''USD'' \<and> \<not> str_includes b ''USD'' \<and>
          Default_convertTickerFormat ''X.BTCUSD'' = a @ ''-USD''"
    by (rule Default_convertTickerFormat_split [OF h1 disjI1 [OF p1], THEN conjunct2,
          THEN conjunct1, THEN mp]) (rule o1)
  have c2: "\<exists>a b. ''ETHUSDT'' = a @ ''USD'' @ b \<and>
          \<not> str_includes a ''USD'' \<and> \<not> str_includes b ''USD'' \<and>
          Default_convertTickerFormat ''ETHUSDT'' = a @ ''-USD''"
    by (rule Default_convertTickerFormat_split [OF h2 disjI2 [OF conjI [OF p2 refl]],
          THEN conjunct2, THEN conjunct1, THEN mp]) (rule o2)
  have c3: "Default_convertTickerFormat ''X.USDUSD'' = ''X.USDUSD''"
    by (rule Default_convertTickerFormat_split [OF h3 disjI1 [OF p3], THEN conjunct2,
          THEN conjunct2, THEN mp]) (rule n3)
  have c4: "Default_convertTickerFormat ''X.BTCEUR'' = ''X.BTCEUR''"
    by (rule Default_convertTickerFormat_split [OF h4 disjI1 [OF p4], THEN conjunct2,
          THEN conjunct2, THEN mp]) (rule n4)
  show ?thesis by (intro conjI h1 p1 o1 c1 e1 h2 p2 o2 c2 e2 h3 p3 o3 c3 h4 o4 c4)
qed

end
